theory Spec2Isabelle
  imports Complex_Main "HOL-Library.Word" "HOL-Library.Char_ord" "HOL-Library.List_Lexorder"
    "HOL-Library.Log_Nat"
begin

section \<open>Go values used by \<^verbatim>\<open>cmd/gostatsd/main.go\<close>\<close>

text \<open>
  A Go \<^verbatim>\<open>error\<close> is an interface value. The program compares errors with two
  sentinels only (\<^verbatim>\<open>pflag.ErrHelp\<close> and \<^verbatim>\<open>context.Canceled\<close>) and
  prints them with \<^verbatim>\<open>%v\<close>; every other error is known by its message. A nil
  error is \<open>None\<close> of \<open>error option\<close>.
\<close>

datatype error = ErrHelp | Canceled | Failure string

fun Error :: "error \<Rightarrow> string" where
  "Error ErrHelp = ''pflag: help requested''"
| "Error Canceled = ''context canceled''"
| "Error (Failure msg) = msg"

definition Errorf :: "string \<Rightarrow> error \<Rightarrow> error" where
  \<comment> \<open>\<^verbatim>\<open>fmt.Errorf(prefix + "%v", err)\<close>: a new error value holding the formatted text.\<close>
  "Errorf prefix err = Failure (prefix @ Error err)"

text \<open>
  A function of the program either returns or panics. A panic is raised by
  \<^verbatim>\<open>panic(err)\<close>, by a method call through a nil pointer, or by an index out of range.
\<close>

datatype panic = PanicError error | NilDereference | IndexOutOfRange

datatype 'a outcome = Returned (returned: 'a) | Panicked panic

subsection \<open>\<^verbatim>\<open>float64\<close> division\<close>


definition floorlog2 :: "rat \<Rightarrow> int" where
  \<comment> \<open>For a positive \<open>q\<close>, the exponent \<open>e\<close> with \<open>2 powi e \<le> q < 2 powi (e + 1)\<close>.\<close>
  "floorlog2 q = (let (a, b) = quotient_of q; d = bitlen a - bitlen b
                  in if 2 powi d \<le> q then d else d - 1)"

definition roundHalfEven :: "rat \<Rightarrow> int" where
  "roundHalfEven x =
     (let f = \<lfloor>x\<rfloor>; r = x - of_int f
      in if r < 1 / 2 then f else if 1 / 2 < r then f + 1 else if even f then f else f + 1)"

definition round64 :: "rat \<Rightarrow> rat" where
  \<comment> \<open>A positive rational rounded to 53 significant bits, or to a multiple of
      \<open>2 powi (-1074)\<close> below the normal range; the exponent is not bounded above.\<close>
  "round64 q = (let e = max (floorlog2 q) (- 1022) - 52
                in of_int (roundHalfEven (q / 2 powi e)) * 2 powi e)"




subsection \<open>Names of the configuration parameters\<close>

definition ParamVerbose :: string where "ParamVerbose = ''verbose''"
definition ParamProfile :: string where "ParamProfile = ''profile''"
definition ParamJSON :: string where "ParamJSON = ''json''"
definition ParamConfigPath :: string where "ParamConfigPath = ''config-path''"
definition ParamVersion :: string where "ParamVersion = ''version''"

text \<open>
  The parameter names of package \<^verbatim>\<open>statsd\<close> that \<^verbatim>\<open>constructServer\<close> reads. Their
  string values are declared outside \<^verbatim>\<open>main.go\<close>; the environment below maps each name
  to its string.
\<close>

datatype statsd_param =
    ParamBackends | ParamInternalTags | ParamInternalNamespace | ParamDefaultTags
  | ParamHostname | ParamExpiryInterval | ParamFlushInterval | ParamIgnoreHost
  | ParamMaxReaders | ParamMaxParsers | ParamMaxWorkers | ParamMaxQueueSize
  | ParamMaxConcurrentEvents | ParamEstimatedTags | ParamMetricsAddr | ParamNamespace
  | ParamStatserType | ParamPercentThreshold | ParamHeartbeatEnabled
  | ParamReceiveBatchSize | ParamConnPerReader | ParamServerMode | ParamLogRawMetric
  | ParamBadLinesPerMinute

subsection \<open>Command-line flags\<close>

record flag =
  flagName :: string
  flagType :: string
  flagDefValue :: string
  flagUsage :: string

datatype ErrorHandling = ContinueOnError | ExitOnError | PanicOnError

record FlagSet =
  fsName :: string
  fsErrorHandling :: ErrorHandling
  fsFormal :: "flag list"

definition NewFlagSet :: "string \<Rightarrow> ErrorHandling \<Rightarrow> FlagSet" where
  "NewFlagSet name eh = \<lparr>fsName = name, fsErrorHandling = eh, fsFormal = []\<rparr>"

definition addFlag :: "string \<Rightarrow> string \<Rightarrow> string \<Rightarrow> string \<Rightarrow> FlagSet \<Rightarrow> FlagSet" where
  "addFlag ty name dflt usage cmd =
     cmd\<lparr>fsFormal := fsFormal cmd @
       [\<lparr>flagName = name, flagType = ty, flagDefValue = dflt, flagUsage = usage\<rparr>]\<rparr>"

definition flagBool :: "string \<Rightarrow> bool \<Rightarrow> string \<Rightarrow> FlagSet \<Rightarrow> FlagSet" where
  \<comment> \<open>\<^verbatim>\<open>cmd.Bool\<close> and \<^verbatim>\<open>cmd.BoolVar\<close>: both declare a flag of type bool.\<close>
  "flagBool name dflt usage = addFlag ''bool'' name (if dflt then ''true'' else ''false'') usage"

definition flagString :: "string \<Rightarrow> string \<Rightarrow> string \<Rightarrow> FlagSet \<Rightarrow> FlagSet" where
  "flagString name dflt usage = addFlag ''string'' name dflt usage"

subsection \<open>Contexts, signals and goroutines\<close>

type_synonym Context = nat
type_synonym chan = nat
type_synonym signal = nat

datatype CancelFunc = CancelFunc Context

definition Interrupt :: signal where "Interrupt = 2"
definition SIGTERM :: signal where "SIGTERM = 15"

datatype goroutine =
    Profiler string
    \<comment> \<open>\<^verbatim>\<open>logrus.Errorf("Profiler server failed: %v", http.ListenAndServe(addr, nil))\<close>\<close>
  | InterruptWatcher Context chan CancelFunc
    \<comment> \<open>\<^verbatim>\<open>select { case <-ctx.Done(): case <-c: f() }\<close>\<close>

subsection \<open>Calls that leave the program\<close>

datatype call =
    CallRandSeed
  | CallInfo string
  | CallFatalf string
  | CallPrintf string
  | CallSetLevelDebug
  | CallSetFormatterJSON
  | CallViperNew
  | CallInitViper
  | CallBindPFlag string
  | CallParse "string list"
  | CallSetConfigFile string
  | CallReadInConfig
  | CallNewTransportPool
  | CallNewCloudHandlerFactoryFromViper
  | CallInitCloudProvider
  | CallInitBackend string
  | CallServerRun Context

section \<open>The server value and the environment of the program\<close>

text \<open>
  \<^verbatim>\<open>statsd.Server\<close> as \<^verbatim>\<open>constructServer\<close> fills it. The types declared in other
  packages are parameters: \<open>'v\<close> is \<^verbatim>\<open>*viper.Viper\<close>, \<open>'f\<close> is \<^verbatim>\<open>float64\<close>,
  \<open>'c\<close> is a non-nil \<^verbatim>\<open>*statsd.CloudHandlerFactory\<close>, \<open>'b\<close> a non-nil
  \<^verbatim>\<open>gostatsd.Backend\<close>, \<open>'p\<close> is \<^verbatim>\<open>*transport.TransportPool\<close> and \<open>'d\<close> the
  result type of \<^verbatim>\<open>gostatsd.DisabledSubMetrics\<close>. A nil pointer, interface or slice is
  \<open>None\<close>. Go's \<^verbatim>\<open>int\<close> and \<^verbatim>\<open>time.Duration\<close> are 64-bit words.
\<close>

record ('v, 'f, 'c, 'b, 'p, 'd) Server =
  Backends :: "'b option list"
  CloudHandlerFactory :: "'c option"
  InternalTags :: "string list"
  InternalNamespace :: string
  DefaultTags :: "string list"
  Hostname :: string
  ExpiryInterval :: "64 word"
  FlushInterval :: "64 word"
  IgnoreHost :: bool
  MaxReaders :: "64 word"
  MaxParsers :: "64 word"
  MaxWorkers :: "64 word"
  MaxQueueSize :: "64 word"
  MaxConcurrentEvents :: "64 word"
  EstimatedTags :: "64 word"
  MetricsAddr :: string
  Namespace :: string
  StatserType :: string
  PercentThreshold :: "'f list option"
  HeartbeatEnabled :: bool
  ReceiveBatchSize :: "64 word"
  ConnPerReader :: bool
  ServerMode :: string
  LogRawMetric :: bool
  HeartbeatTags :: "string list"
  DisabledSubTypes :: 'd
  BadLineRateLimitPerSecond :: 'f
  Viper :: 'v
  TransportPool :: 'p

text \<open>
  Everything \<^verbatim>\<open>main.go\<close> uses and does not define: the build variables of package
  \<^verbatim>\<open>main\<close>, the process arguments, the parameter names of package \<^verbatim>\<open>statsd\<close>,
  \<^verbatim>\<open>float64\<close> arithmetic, the viper and pflag libraries and the collaborators of
  packages \<^verbatim>\<open>statsd\<close>, \<^verbatim>\<open>backends\<close>, \<^verbatim>\<open>transport\<close> and \<^verbatim>\<open>util\<close>. The
  world \<open>'w\<close> holds all they read and write (configuration store, flag values, files,
  network); a call maps the world before it to its results and the world after it. A Go
  function that returns a value and an error returns the pair of them here.
  \<open>ParseFloat\<close> is \<^verbatim>\<open>strconv.ParseFloat\<close> at bit size 64, \<open>float64Quo\<close> the division
  of \<^verbatim>\<open>float64\<close> and \<open>float64OfInt\<close> the conversion of an integer constant; where
  a property depends on the arithmetic, \<open>'f\<close> is \<open>float64\<close> and the division is
  \<open>float64_div\<close>. The logger passed to the collaborators is the one standard logger and
  is left out.
\<close>

record ('w, 'v, 'f, 'c, 'b, 'p, 'd) env =
  Version :: string
  GitCommit :: string
  BuildDate :: string
  Args :: "string list"
  statsdParam :: "statsd_param \<Rightarrow> string"
  ParseFloat :: "string \<Rightarrow> 'f \<times> error option"
  float64OfInt :: "int \<Rightarrow> 'f"
  float64Quo :: "'f \<Rightarrow> 'f \<Rightarrow> 'f"
  GetString :: "'v \<Rightarrow> string \<Rightarrow> 'w \<Rightarrow> string"
  GetStringSlice :: "'v \<Rightarrow> string \<Rightarrow> 'w \<Rightarrow> string list"
  GetBool :: "'v \<Rightarrow> string \<Rightarrow> 'w \<Rightarrow> bool"
  GetInt :: "'v \<Rightarrow> string \<Rightarrow> 'w \<Rightarrow> 64 word"
  GetDuration :: "'v \<Rightarrow> string \<Rightarrow> 'w \<Rightarrow> 64 word"
  GetFloat64 :: "'v \<Rightarrow> string \<Rightarrow> 'w \<Rightarrow> 'f"
  viperNew :: "'w \<Rightarrow> 'v \<times> 'w"
  InitViper :: "'v \<Rightarrow> string \<Rightarrow> 'w \<Rightarrow> unit \<times> 'w"
  AddFlags :: "FlagSet \<Rightarrow> FlagSet"
  BindPFlag :: "'v \<Rightarrow> string \<Rightarrow> flag \<Rightarrow> 'w \<Rightarrow> error option \<times> 'w"
  Parse :: "FlagSet \<Rightarrow> string list \<Rightarrow> 'w \<Rightarrow> (bool \<times> error option) \<times> 'w"
  SetConfigFile :: "'v \<Rightarrow> string \<Rightarrow> 'w \<Rightarrow> unit \<times> 'w"
  ReadInConfig :: "'v \<Rightarrow> 'w \<Rightarrow> error option \<times> 'w"
  NewTransportPool :: "'v \<Rightarrow> 'w \<Rightarrow> 'p \<times> 'w"
  NewCloudHandlerFactoryFromViper :: "'v \<Rightarrow> string \<Rightarrow> 'w \<Rightarrow> ('c option \<times> error option) \<times> 'w"
  InitCloudProvider :: "'c \<Rightarrow> 'v \<Rightarrow> 'w \<Rightarrow> error option \<times> 'w"
  InitBackend :: "string \<Rightarrow> 'v \<Rightarrow> 'p \<Rightarrow> 'w \<Rightarrow> ('b option \<times> error option) \<times> 'w"
  DisabledSubMetrics :: "'v \<Rightarrow> 'w \<Rightarrow> 'd"
  ServerRun :: "('v, 'f, 'c, 'b, 'p, 'd) Server \<Rightarrow> Context \<Rightarrow> 'w \<Rightarrow> error option \<times> 'w"

text \<open>
  The state of the running process: the world, the calls made so far (oldest first), the
  goroutines started, the contexts made by \<^verbatim>\<open>context.WithCancel\<close> and which of them are
  cancelled, the channels made (capacity and buffered values) and the registrations of
  \<^verbatim>\<open>signal.Notify\<close>.
\<close>

record 'w state =
  world :: 'w
  trace :: "call list"
  goroutines :: "goroutine list"
  contexts :: nat
  cancelled :: "Context list"
  chans :: "(nat \<times> signal list) list"
  notify :: "(chan \<times> signal list) list"

definition extern :: "call \<Rightarrow> ('w \<Rightarrow> 'a \<times> 'w) \<Rightarrow> 'w state \<Rightarrow> 'a \<times> 'w state" where
  \<comment> \<open>A call into the environment: it runs on the world and is appended to the trace.\<close>
  "extern c f st = (let (r, w) = f (world st) in (r, st\<lparr>world := w, trace := trace st @ [c]\<rparr>))"

definition emit :: "call \<Rightarrow> 'w state \<Rightarrow> 'w state" where
  \<comment> \<open>A call whose only effect is its output (logging, printing, logger settings).\<close>
  "emit c st = st\<lparr>trace := trace st @ [c]\<rparr>"

definition go :: "goroutine \<Rightarrow> 'w state \<Rightarrow> 'w state" where
  "go g st = st\<lparr>goroutines := goroutines st @ [g]\<rparr>"

text \<open>
  Two states of the same process: they agree on everything but the world and the trace.
\<close>

definition sameProcess :: "'w state \<Rightarrow> 'w state \<Rightarrow> bool" where
  "sameProcess st st' \<longleftrightarrow>
     goroutines st' = goroutines st \<and> contexts st' = contexts st \<and>
     cancelled st' = cancelled st \<and> chans st' = chans st \<and> notify st' = notify st"

section \<open>The functions of \<^verbatim>\<open>main.go\<close>\<close>

subsection \<open>\<^verbatim>\<open>getPercentiles\<close>\<close>

text \<open>
  The \<^verbatim>\<open>range\<close> loop of \<^verbatim>\<open>getPercentiles\<close>, at index \<open>i\<close> with the strings still to
  visit and the slice \<^verbatim>\<open>percentThresholds\<close> as filled so far. The result is the pair the
  function returns: the slice (\<open>None\<close> is the nil slice) and the error.
\<close>

fun getPercentiles_loop ::
  "('w, 'v, 'f, 'c, 'b, 'p, 'd) env \<Rightarrow> nat \<Rightarrow> string list \<Rightarrow> 'f list
     \<Rightarrow> 'f list option \<times> error option" where
  "getPercentiles_loop env i [] percentThresholds = (Some percentThresholds, None)"
| "getPercentiles_loop env i (sPercentThreshold # rest) percentThresholds =
     (let (pt, err) = ParseFloat env sPercentThreshold
      in if err \<noteq> None then (None, err)
         else getPercentiles_loop env (Suc i) rest (percentThresholds[i := pt]))"

definition getPercentiles ::
  "('w, 'v, 'f, 'c, 'b, 'p, 'd) env \<Rightarrow> string list \<Rightarrow> 'f list option \<times> error option" where
  "getPercentiles env s =
     getPercentiles_loop env 0 s (replicate (length s) (float64OfInt env 0))"

subsection \<open>\<^verbatim>\<open>constructServer\<close>\<close>

text \<open>
  The loop over the backend names (lines 104 to 110), at index \<open>i\<close>. It stops at the first
  \<^verbatim>\<open>InitBackend\<close> that returns an error and gives that error back; otherwise it stores
  the backend at index \<open>i\<close> of \<^verbatim>\<open>backendsList\<close>.
\<close>

fun constructServer_backends ::
  "('w, 'v, 'f, 'c, 'b, 'p, 'd) env \<Rightarrow> 'v \<Rightarrow> 'p \<Rightarrow> nat \<Rightarrow> string list \<Rightarrow> 'b option list
     \<Rightarrow> 'w state \<Rightarrow> (error option \<times> 'b option list) \<times> 'w state" where
  "constructServer_backends env v pool i [] backendsList st = ((None, backendsList), st)"
| "constructServer_backends env v pool i (backendName # rest) backendsList st =
     (let ((backend, errBackend), st') =
            extern (CallInitBackend backendName) (InitBackend env backendName v pool) st
      in if errBackend \<noteq> None then ((errBackend, backendsList), st')
         else constructServer_backends env v pool (Suc i) rest (backendsList[i := backend]) st')"

text \<open>
  \<^verbatim>\<open>cloud.InitCloudProvider(v)\<close>: a method call through the pointer \<^verbatim>\<open>cloud\<close>, which
  dereferences it.
\<close>

definition cloud_InitCloudProvider ::
  "('w, 'v, 'f, 'c, 'b, 'p, 'd) env \<Rightarrow> 'c option \<Rightarrow> 'v \<Rightarrow> 'w state
     \<Rightarrow> error option outcome \<times> 'w state" where
  "cloud_InitCloudProvider env cloud v st =
     (case cloud of
        None \<Rightarrow> (Panicked NilDereference, st)
      | Some c \<Rightarrow>
          (let (err, st') = extern CallInitCloudProvider (InitCloudProvider env c v) st
           in (Returned err, st')))"

text \<open>
  The struct literal of lines 117 to 150. The getters read the configuration as the world
  has it when the literal is evaluated.
\<close>

definition newServer ::
  "('w, 'v, 'f, 'c, 'b, 'p, 'd) env \<Rightarrow> 'v \<Rightarrow> 'w \<Rightarrow> 'b option list \<Rightarrow> 'c option
     \<Rightarrow> 'f list option \<Rightarrow> 'p \<Rightarrow> ('v, 'f, 'c, 'b, 'p, 'd) Server" where
  "newServer env v w backendsList cloud pt pool =
     \<lparr> Backends = backendsList,
       CloudHandlerFactory = cloud,
       InternalTags = GetStringSlice env v (statsdParam env ParamInternalTags) w,
       InternalNamespace = GetString env v (statsdParam env ParamInternalNamespace) w,
       DefaultTags = GetStringSlice env v (statsdParam env ParamDefaultTags) w,
       Hostname = GetString env v (statsdParam env ParamHostname) w,
       ExpiryInterval = GetDuration env v (statsdParam env ParamExpiryInterval) w,
       FlushInterval = GetDuration env v (statsdParam env ParamFlushInterval) w,
       IgnoreHost = GetBool env v (statsdParam env ParamIgnoreHost) w,
       MaxReaders = GetInt env v (statsdParam env ParamMaxReaders) w,
       MaxParsers = GetInt env v (statsdParam env ParamMaxParsers) w,
       MaxWorkers = GetInt env v (statsdParam env ParamMaxWorkers) w,
       MaxQueueSize = GetInt env v (statsdParam env ParamMaxQueueSize) w,
       MaxConcurrentEvents = GetInt env v (statsdParam env ParamMaxConcurrentEvents) w,
       EstimatedTags = GetInt env v (statsdParam env ParamEstimatedTags) w,
       MetricsAddr = GetString env v (statsdParam env ParamMetricsAddr) w,
       Namespace = GetString env v (statsdParam env ParamNamespace) w,
       StatserType = GetString env v (statsdParam env ParamStatserType) w,
       PercentThreshold = pt,
       HeartbeatEnabled = GetBool env v (statsdParam env ParamHeartbeatEnabled) w,
       ReceiveBatchSize = GetInt env v (statsdParam env ParamReceiveBatchSize) w,
       ConnPerReader = GetBool env v (statsdParam env ParamConnPerReader) w,
       ServerMode = GetString env v (statsdParam env ParamServerMode) w,
       LogRawMetric = GetBool env v (statsdParam env ParamLogRawMetric) w,
       HeartbeatTags = [''version:'' @ Version env, ''commit:'' @ GitCommit env],
       DisabledSubTypes = DisabledSubMetrics env v w,
       BadLineRateLimitPerSecond =
         float64Quo env (GetFloat64 env v (statsdParam env ParamBadLinesPerMinute) w)
           (float64OfInt env 60),
       Viper = v,
       TransportPool = pool \<rparr>"

text \<open>
  \<^verbatim>\<open>constructServer\<close> returns \<^verbatim>\<open>(nil, err)\<close>, here \<open>Inl err\<close>, or
  \<^verbatim>\<open>(&statsd.Server{...}, nil)\<close>, here \<open>Inr\<close> of the server.
\<close>

definition constructServer ::
  "('w, 'v, 'f, 'c, 'b, 'p, 'd) env \<Rightarrow> 'v \<Rightarrow> 'w state
     \<Rightarrow> (error + ('v, 'f, 'c, 'b, 'p, 'd) Server) outcome \<times> 'w state" where
  "constructServer env v st0 =
     (let (pool, st1) = extern CallNewTransportPool (NewTransportPool env v) st0;
          ((cloud, err), st2) =
            extern CallNewCloudHandlerFactoryFromViper
              (NewCloudHandlerFactoryFromViper env v (Version env)) st1
      in case err of
           Some e \<Rightarrow> (Returned (Inl e), st2)
         | None \<Rightarrow>
             (case (if cloud \<noteq> None then cloud_InitCloudProvider env cloud v st2
                    else (Returned None, st2)) of
                (Panicked p, st3) \<Rightarrow> (Panicked p, st3)
              | (Returned (Some e), st3) \<Rightarrow> (Returned (Inl e), st3)
              | (Returned None, st3) \<Rightarrow>
                  (let backendNames =
                         GetStringSlice env v (statsdParam env ParamBackends) (world st3);
                       backendsList = replicate (length backendNames) None
                   in case constructServer_backends env v pool 0 backendNames backendsList st3 of
                        ((Some errBackend, _), st4) \<Rightarrow> (Returned (Inl errBackend), st4)
                      | ((None, backendsList'), st4) \<Rightarrow>
                          (case getPercentiles env
                                  (GetStringSlice env v (statsdParam env ParamPercentThreshold)
                                     (world st4)) of
                             (_, Some e) \<Rightarrow> (Returned (Inl e), st4)
                           | (pt, None) \<Rightarrow>
                               (Returned (Inr (newServer env v (world st4) backendsList' cloud pt pool)),
                                st4)))))"

subsection \<open>Initialising the backends in turn\<close>

text \<open>
  The vocabulary in which the properties of the backend loop are stated: what
  \<^verbatim>\<open>backends.InitBackend\<close> returns for each name of a list when the names are
  initialised one after the other, each in the world the one before it left, and the
  world after the last of them. These follow the environment only, not the loop.
\<close>

fun initResults ::
  "('w, 'v, 'f, 'c, 'b, 'p, 'd) env \<Rightarrow> 'v \<Rightarrow> 'p \<Rightarrow> string list \<Rightarrow> 'w
     \<Rightarrow> ('b option \<times> error option) list" where
  "initResults env v pool [] w = []"
| "initResults env v pool (name # rest) w =
     fst (InitBackend env name v pool w) #
     initResults env v pool rest (snd (InitBackend env name v pool w))"

fun initWorld :: "('w, 'v, 'f, 'c, 'b, 'p, 'd) env \<Rightarrow> 'v \<Rightarrow> 'p \<Rightarrow> string list \<Rightarrow> 'w \<Rightarrow> 'w" where
  "initWorld env v pool [] w = w"
| "initWorld env v pool (name # rest) w =
     initWorld env v pool rest (snd (InitBackend env name v pool w))"

fun initBackendCalls :: "call list \<Rightarrow> string list" where
  \<comment> \<open>The names passed to \<^verbatim>\<open>InitBackend\<close> in a trace, in the order of the calls.\<close>
  "initBackendCalls [] = []"
| "initBackendCalls (CallInitBackend name # cs) = name # initBackendCalls cs"
| "initBackendCalls (_ # cs) = initBackendCalls cs"

subsection \<open>\<^verbatim>\<open>cancelOnInterrupt\<close>\<close>

definition WithCancel :: "'w state \<Rightarrow> (Context \<times> CancelFunc) \<times> 'w state" where
  \<comment> \<open>\<^verbatim>\<open>context.WithCancel(context.Background())\<close>: a new context, not cancelled.\<close>
  "WithCancel st =
     ((contexts st, CancelFunc (contexts st)), st\<lparr>contexts := Suc (contexts st)\<rparr>)"

fun cancel :: "CancelFunc \<Rightarrow> 'w state \<Rightarrow> 'w state" where
  \<comment> \<open>Calling a \<^verbatim>\<open>CancelFunc\<close>; after the first call the later ones do nothing.\<close>
  "cancel (CancelFunc ctx) st = st\<lparr>cancelled := List.insert ctx (cancelled st)\<rparr>"

definition Done :: "Context \<Rightarrow> 'w state \<Rightarrow> bool" where
  \<comment> \<open>Whether the channel \<^verbatim>\<open>ctx.Done()\<close> is closed.\<close>
  "Done ctx st = (ctx \<in> set (cancelled st))"

definition makeChan :: "nat \<Rightarrow> 'w state \<Rightarrow> chan \<times> 'w state" where
  \<comment> \<open>\<^verbatim>\<open>make(chan os.Signal, n)\<close>\<close>
  "makeChan n st = (length (chans st), st\<lparr>chans := chans st @ [(n, [])]\<rparr>)"

definition Notify :: "chan \<Rightarrow> signal list \<Rightarrow> 'w state \<Rightarrow> 'w state" where
  "Notify c sigs st = st\<lparr>notify := notify st @ [(c, sigs)]\<rparr>"

definition cancelOnInterrupt :: "Context \<Rightarrow> CancelFunc \<Rightarrow> 'w state \<Rightarrow> 'w state" where
  "cancelOnInterrupt ctx f st =
     (let (c, st1) = makeChan 1 st;
          st2 = Notify c [Interrupt, SIGTERM] st1
      in go (InterruptWatcher ctx c f) st2)"

text \<open>
  What the Go runtime does with the registrations and the goroutine that
  \<^verbatim>\<open>cancelOnInterrupt\<close> leaves behind. A signal that reaches the process is sent, without
  blocking, to every channel registered for it: it is buffered when the channel has room
  and dropped otherwise.
\<close>

definition trySend :: "chan \<Rightarrow> signal \<Rightarrow> (nat \<times> signal list) list \<Rightarrow> (nat \<times> signal list) list" where
  "trySend c sig cs =
     (if c < length cs \<and> length (snd (cs ! c)) < fst (cs ! c)
      then cs[c := (fst (cs ! c), snd (cs ! c) @ [sig])] else cs)"

definition relay ::
  "signal \<Rightarrow> (nat \<times> signal list) list \<Rightarrow> chan \<times> signal list \<Rightarrow> (nat \<times> signal list) list" where
  \<comment> \<open>One registration: the channel gets the signal when it is registered for it.\<close>
  "relay sig = (\<lambda>cs (c, sigs). if sig \<in> set sigs then trySend c sig cs else cs)"

definition receiveSignal :: "signal \<Rightarrow> 'w state \<Rightarrow> 'w state" where
  "receiveSignal sig st = st\<lparr>chans := foldl (relay sig) (chans st) (notify st)\<rparr>"

text \<open>
  The \<^verbatim>\<open>select\<close> of the goroutine started at line 169: the states it can end in. The
  list is empty while both cases block; when both are ready either may be taken.
\<close>

definition interruptWatcher :: "Context \<Rightarrow> chan \<Rightarrow> CancelFunc \<Rightarrow> 'w state \<Rightarrow> 'w state list" where
  "interruptWatcher ctx c f st =
     (let st' = st\<lparr>goroutines := remove1 (InterruptWatcher ctx c f) (goroutines st)\<rparr>
      in (if Done ctx st then [st'] else []) @
         (if c < length (chans st) \<and> snd (chans st ! c) \<noteq> []
          then [cancel f (st'\<lparr>chans := (chans st)[c := (fst (chans st ! c), tl (snd (chans st ! c)))]\<rparr>)]
          else []))"

subsection \<open>\<^verbatim>\<open>run\<close>\<close>

text \<open>
  \<^verbatim>\<open>run\<close> with the deferred \<^verbatim>\<open>cancelFunc()\<close> at its exit. \<^verbatim>\<open>s.Run(ctx)\<close> is taken
  when it returns; \<open>None\<close> is the nil error.
\<close>

definition run ::
  "('w, 'v, 'f, 'c, 'b, 'p, 'd) env \<Rightarrow> 'v \<Rightarrow> 'w state \<Rightarrow> error option outcome \<times> 'w state" where
  "run env v st0 =
     (let profileAddr = GetString env v ParamProfile (world st0);
          st1 = (if profileAddr \<noteq> [] then go (Profiler profileAddr) st0 else st0);
          st2 = emit (CallInfo ''Starting server'') st1
      in case constructServer env v st2 of
           (Panicked p, st3) \<Rightarrow> (Panicked p, st3)
         | (Returned (Inl err), st3) \<Rightarrow> (Returned (Some err), st3)
         | (Returned (Inr s), st3) \<Rightarrow>
             (let ((ctx, cancelFunc), st4) = WithCancel st3;
                  st5 = cancelOnInterrupt ctx cancelFunc st4;
                  (err, st6) = extern (CallServerRun ctx) (ServerRun env s ctx) st5;
                  result = (case err of
                              Some e \<Rightarrow> if e \<noteq> Canceled then Some (Errorf ''server error: '' e)
                                        else None
                            | None \<Rightarrow> None)
              in (Returned result, cancel cancelFunc st6)))"

subsection \<open>\<^verbatim>\<open>setupLogger\<close> and \<^verbatim>\<open>setupConfiguration\<close>\<close>

definition setupLogger :: "('w, 'v, 'f, 'c, 'b, 'p, 'd) env \<Rightarrow> 'v \<Rightarrow> 'w state \<Rightarrow> 'w state" where
  "setupLogger env v st0 =
     (let st1 = (if GetBool env v ParamVerbose (world st0) then emit CallSetLevelDebug st0 else st0)
      in if GetBool env v ParamJSON (world st1) then emit CallSetFormatterJSON st1 else st1)"

definition VisitAll :: "FlagSet \<Rightarrow> flag list" where
  \<comment> \<open>pflag visits the flags sorted by name.\<close>
  "VisitAll cmd = sort_key flagName (fsFormal cmd)"

text \<open>
  The function passed to \<^verbatim>\<open>cmd.VisitAll\<close>, over the flags in visiting order. The result
  is the error it panics with, if any.
\<close>

fun setupConfiguration_bind ::
  "('w, 'v, 'f, 'c, 'b, 'p, 'd) env \<Rightarrow> 'v \<Rightarrow> flag list \<Rightarrow> 'w state \<Rightarrow> error option \<times> 'w state" where
  "setupConfiguration_bind env v [] st = (None, st)"
| "setupConfiguration_bind env v (f # fs) st =
     (let (err, st') = extern (CallBindPFlag (flagName f)) (BindPFlag env v (flagName f) f) st
      in if err \<noteq> None then (err, st') else setupConfiguration_bind env v fs st')"

text \<open>
  The flag set that \<^verbatim>\<open>setupConfiguration\<close> declares (lines 185 to 193), named after
  \<^verbatim>\<open>os.Args[0]\<close>.
\<close>

definition setupConfiguration_flags :: "('w, 'v, 'f, 'c, 'b, 'p, 'd) env \<Rightarrow> string \<Rightarrow> FlagSet" where
  "setupConfiguration_flags env arg0 =
     (let cmd = NewFlagSet arg0 ContinueOnError;
          cmd = flagBool ParamVersion False ''Print the version and exit'' cmd;
          cmd = flagBool ParamVerbose False ''Verbose'' cmd;
          cmd = flagBool ParamJSON False ''Log in JSON format'' cmd;
          cmd = flagString ParamProfile []
                  ''Enable profiler endpoint on the specified address and port'' cmd;
          cmd = flagString ParamConfigPath [] ''Path to the configuration file'' cmd
      in AddFlags env cmd)"

text \<open>
  \<^verbatim>\<open>setupConfiguration\<close> returns \<^verbatim>\<open>(nil, false, err)\<close>, here \<open>Inl err\<close>, or
  \<^verbatim>\<open>(v, version, nil)\<close>, here \<open>Inr (v, version)\<close>. The deferred \<^verbatim>\<open>setupLogger(v)\<close> runs
  at every exit, a panic included. \<^verbatim>\<open>Parse\<close> gives the value it leaves in the variable
  \<^verbatim>\<open>version\<close> and its error.
\<close>

definition setupConfiguration ::
  "('w, 'v, 'f, 'c, 'b, 'p, 'd) env \<Rightarrow> 'w state \<Rightarrow> (error + 'v \<times> bool) outcome \<times> 'w state" where
  "setupConfiguration env st0 =
     (let (v, st1) = extern CallViperNew (viperNew env) st0;
          (_, st2) = extern CallInitViper (InitViper env v []) st1
      in case Args env of
           [] \<Rightarrow> (Panicked IndexOutOfRange, setupLogger env v st2)
         | arg0 # args \<Rightarrow>
             (let cmd = setupConfiguration_flags env arg0
              in case setupConfiguration_bind env v (VisitAll cmd) st2 of
                   (Some err, st3) \<Rightarrow> (Panicked (PanicError err), setupLogger env v st3)
                 | (None, st3) \<Rightarrow>
                     (let ((version, err), st4) = extern (CallParse args) (Parse env cmd args) st3
                      in case err of
                           Some e \<Rightarrow> (Returned (Inl e), setupLogger env v st4)
                         | None \<Rightarrow>
                             (let configPath = GetString env v ParamConfigPath (world st4)
                              in if configPath \<noteq> [] then
                                   (let (_, st5) = extern (CallSetConfigFile configPath)
                                                     (SetConfigFile env v configPath) st4;
                                        (err, st6) = extern CallReadInConfig (ReadInConfig env v) st5
                                    in case err of
                                         Some e \<Rightarrow> (Returned (Inl e), setupLogger env v st6)
                                       | None \<Rightarrow>
                                           (Returned (Inr (v, version)), setupLogger env v st6))
                                 else (Returned (Inr (v, version)), setupLogger env v st4)))))"

subsection \<open>\<^verbatim>\<open>main\<close>\<close>

text \<open>
  How the process ends: \<^verbatim>\<open>main\<close> returns, \<^verbatim>\<open>logrus.Fatalf\<close> logs and calls
  \<^verbatim>\<open>os.Exit(1)\<close>, or a panic reaches the top.
\<close>

datatype exit = MainReturned | OsExit nat | Crashed panic

definition Fatalf :: "string \<Rightarrow> 'w state \<Rightarrow> exit \<times> 'w state" where
  "Fatalf msg st = (OsExit 1, emit (CallFatalf msg) st)"

definition main :: "('w, 'v, 'f, 'c, 'b, 'p, 'd) env \<Rightarrow> 'w state \<Rightarrow> exit \<times> 'w state" where
  "main env st0 =
     (let st1 = emit CallRandSeed st0
      in case setupConfiguration env st1 of
           (Panicked p, st2) \<Rightarrow> (Crashed p, st2)
         | (Returned (Inl err), st2) \<Rightarrow>
             if err = ErrHelp then (MainReturned, st2)
             else Fatalf (''Error while parsing configuration: '' @ Error err) st2
         | (Returned (Inr (v, version)), st2) \<Rightarrow>
             if version then
               (MainReturned,
                emit (CallPrintf (''Version: '' @ Version env @ '' - Commit: '' @ GitCommit env
                                  @ '' - Date: '' @ BuildDate env @ [CHR 0x0A])) st2)
             else
               (case run env v st2 of
                  (Panicked p, st3) \<Rightarrow> (Crashed p, st3)
                | (Returned (Some err), st3) \<Rightarrow> Fatalf (Error err) st3
                | (Returned None, st3) \<Rightarrow> (MainReturned, st3)))"

section \<open>The aggregation pipeline behind \<^verbatim>\<open>Server.Run\<close>\<close>

text \<open>
  The pipeline that \<^verbatim>\<open>Server.Run\<close> starts lives in the packages \<^verbatim>\<open>gostatsd\<close> and
  \<^verbatim>\<open>statsd\<close>, of which \<^verbatim>\<open>main.go\<close> is only a caller. The two parts of it that are
  needed below are modelled from the specification's data model.
\<close>

subsection \<open>Metric identities and shards\<close>

text \<open>
  Modelled from the spec: the metric kinds (the source of \<^verbatim>\<open>gostatsd.MetricType\<close> is
  missing): counters, gauges, sets and timers.
\<close>

datatype MetricKind = Counter | Gauge | Set | Timer

text \<open>
  Modelled from the spec: the value of a data point (source missing), numeric, or a string
  for sets.
\<close>

datatype MetricValue = Number int | Text string

text \<open>
  Modelled from the spec: the record \<open>Metric\<close> (the source of the \<^verbatim>\<open>gostatsd.Metric\<close>
  type is missing). One ingested data point: name, kind, numeric value (or string for
  sets), optional sample rate, the tags in the order in which they were inserted, and
  the source hostname unless host tagging is disabled.
\<close>

record Metric =
  metricName :: string
  metricKind :: MetricKind
  metricValue :: MetricValue
  metricRate :: "rat option"
  metricTags :: "string list"
  metricHostname :: "string option"

text \<open>
  Modelled from the spec: the aggregation key \<open>MetricIdentity\<close> (its source is missing):
  name, tag-set and metric kind, where the tag-set is an unordered set of
  \<open>key:value\<close> strings held in a canonical sorted form.
\<close>

record MetricIdentity =
  identityName :: string
  identityTags :: "string list"
  identityKind :: MetricKind

text \<open>
  Modelled from the spec: the canonical sorted form of a tag-set (source missing): the
  tags sorted, each once.
\<close>

definition canonicalTags :: "string list \<Rightarrow> string list" where
  "canonicalTags tags = sort (remdups tags)"

text \<open>
  Modelled from the spec: the identity an aggregation worker computes for a metric
  (source missing).
\<close>

definition metricIdentity :: "Metric \<Rightarrow> MetricIdentity" where
  "metricIdentity m =
     \<lparr>identityName = metricName m, identityTags = canonicalTags (metricTags m),
      identityKind = metricKind m\<rparr>"

text \<open>
  Modelled from the spec: shard assignment (the dispatcher's source is missing), a
  deterministic hash of the identity taken modulo the number of workers. The hash
  function is a parameter.
\<close>

definition shardOf :: "(MetricIdentity \<Rightarrow> nat) \<Rightarrow> nat \<Rightarrow> MetricIdentity \<Rightarrow> nat" where
  "shardOf hash workers ident = hash ident mod workers"

subsection \<open>Aggregated counters\<close>

text \<open>
  Modelled from the spec: \<open>AggregatedCounter\<close> (the aggregator's source is missing): the
  running sum since the last flush and the total since start.
\<close>

record AggregatedCounter =
  sinceFlush :: int
  sinceStart :: int

text \<open>Modelled from the spec: the fresh aggregate of an identity (source missing).\<close>

definition newCounter :: AggregatedCounter where
  "newCounter = \<lparr>sinceFlush = 0, sinceStart = 0\<rparr>"

text \<open>
  Modelled from the spec: the combination rule of counters (source missing): an
  increment is added to the running sum and to the total.
\<close>

definition foldCounter :: "AggregatedCounter \<Rightarrow> int \<Rightarrow> AggregatedCounter" where
  "foldCounter c v = \<lparr>sinceFlush = sinceFlush c + v, sinceStart = sinceStart c + v\<rparr>"

text \<open>
  Modelled from the spec: the flush of one counter (source missing). It emits the delta
  since the last flush and the total since start as read before the reset, and resets
  the running sum to zero.
\<close>

definition flushCounter :: "AggregatedCounter \<Rightarrow> (int \<times> int) \<times> AggregatedCounter" where
  "flushCounter c = ((sinceFlush c, sinceStart c), c\<lparr>sinceFlush := 0\<rparr>)"

text \<open>
  Modelled from the spec: what a worker's shard sees of one identity (source missing).
  \<open>Window\<close> is one flush window: the increments that arrive in it, in order, and
  the flush that ends it. \<open>Expire\<close> is the expiry manager removing the identity, which
  it has found unseen for longer than the expiry interval.
\<close>

datatype shardEvent = Window "int list" | Expire

text \<open>
  Modelled from the spec: the worker receiving one increment for the identity (source
  missing): it looks up the aggregate or creates a fresh one, and folds the value in.
  \<open>None\<close> is an identity that has no aggregate in the shard.
\<close>

definition foldMetric :: "AggregatedCounter option \<Rightarrow> int \<Rightarrow> AggregatedCounter option" where
  "foldMetric s v = Some (foldCounter (case s of None \<Rightarrow> newCounter | Some c \<Rightarrow> c) v)"

text \<open>
  Modelled from the spec: the flush as it concerns the identity (source missing): an
  identity without aggregate is not in the snapshot, one with an aggregate is flushed.
\<close>

definition flushIdentity ::
  "AggregatedCounter option \<Rightarrow> (int \<times> int) option \<times> AggregatedCounter option" where
  "flushIdentity s =
     (case s of
        None \<Rightarrow> (None, None)
      | Some c \<Rightarrow> (let (emitted, c') = flushCounter c in (Some emitted, Some c')))"

text \<open>
  Modelled from the spec: one event (source missing): what is emitted for the identity,
  if anything, and the aggregate afterwards. An expired identity is removed entirely:
  later increments start a fresh aggregate with no memory of the earlier one.
\<close>

fun shardStep ::
  "AggregatedCounter option \<Rightarrow> shardEvent \<Rightarrow> (int \<times> int) option \<times> AggregatedCounter option" where
  "shardStep s (Window increments) = flushIdentity (foldl foldMetric s increments)"
| "shardStep s Expire = (None, None)"

text \<open>
  Modelled from the spec: the life of one identity (source missing): what each event of
  a history emits, and the aggregate a history leaves.
\<close>

fun life :: "AggregatedCounter option \<Rightarrow> shardEvent list \<Rightarrow> (int \<times> int) option list" where
  "life s [] = []"
| "life s (e # es) = fst (shardStep s e) # life (snd (shardStep s e)) es"





section \<open>A concrete environment\<close>

text \<open>
  One small environment on which the functions above can be run. Its world is the
  configuration store, a list of settings (the first entry of a key counts); its
  \<^verbatim>\<open>float64\<close> values are exact rationals and only strings of decimal digits parse; the
  cloud providers \<open>aws\<close> and \<open>k8s\<close> exist, and \<open>k8s\<close> fails to initialise; the
  backends \<open>datadog\<close>, \<open>graphite\<close> and \<open>stdout\<close> exist; the only configuration file
  is \<open>gostatsd.toml\<close>.
\<close>

type_synonym exWorld = "(string \<times> string list) list"

definition initState :: "'w \<Rightarrow> 'w state" where
  "initState w = \<lparr>world = w, trace = [], goroutines = [], contexts = 0, cancelled = [],
                   chans = [], notify = []\<rparr>"

fun exParam :: "statsd_param \<Rightarrow> string" where
  "exParam ParamBackends = ''backends''"
| "exParam ParamInternalTags = ''internal-tags''"
| "exParam ParamInternalNamespace = ''internal-namespace''"
| "exParam ParamDefaultTags = ''default-tags''"
| "exParam ParamHostname = ''hostname''"
| "exParam ParamExpiryInterval = ''expiry-interval''"
| "exParam ParamFlushInterval = ''flush-interval''"
| "exParam ParamIgnoreHost = ''ignore-host''"
| "exParam ParamMaxReaders = ''max-readers''"
| "exParam ParamMaxParsers = ''max-parsers''"
| "exParam ParamMaxWorkers = ''max-workers''"
| "exParam ParamMaxQueueSize = ''max-queue-size''"
| "exParam ParamMaxConcurrentEvents = ''max-concurrent-events''"
| "exParam ParamEstimatedTags = ''estimated-tags''"
| "exParam ParamMetricsAddr = ''metrics-addr''"
| "exParam ParamNamespace = ''namespace''"
| "exParam ParamStatserType = ''statser-type''"
| "exParam ParamPercentThreshold = ''percent-threshold''"
| "exParam ParamHeartbeatEnabled = ''heartbeat-enabled''"
| "exParam ParamReceiveBatchSize = ''receive-batch-size''"
| "exParam ParamConnPerReader = ''conn-per-reader''"
| "exParam ParamServerMode = ''server-mode''"
| "exParam ParamLogRawMetric = ''log-raw-metric''"
| "exParam ParamBadLinesPerMinute = ''bad-lines-per-minute''"

fun exNat :: "nat \<Rightarrow> string \<Rightarrow> nat option" where
  "exNat acc [] = Some acc"
| "exNat acc (c # cs) =
     (let n = (of_char c :: nat)
      in if 48 \<le> n \<and> n \<le> 57 then exNat (10 * acc + (n - 48)) cs else None)"

definition exParseFloat :: "string \<Rightarrow> rat \<times> error option" where
  "exParseFloat s =
     (case (if s = [] then None else exNat 0 s) of
        None \<Rightarrow> (0, Some (Failure (''strconv.ParseFloat: invalid syntax: '' @ s)))
      | Some n \<Rightarrow> (of_nat n, None))"

definition exGetStringSlice :: "string \<Rightarrow> exWorld \<Rightarrow> string list" where
  "exGetStringSlice k w = (case map_of w k of None \<Rightarrow> [] | Some xs \<Rightarrow> xs)"

definition exGetString :: "string \<Rightarrow> exWorld \<Rightarrow> string" where
  "exGetString k w = (case exGetStringSlice k w of [] \<Rightarrow> [] | x # _ \<Rightarrow> x)"

definition exGetInt :: "string \<Rightarrow> exWorld \<Rightarrow> 64 word" where
  "exGetInt k w = (case exNat 0 (exGetString k w) of None \<Rightarrow> 0 | Some n \<Rightarrow> of_nat n)"

fun exParse :: "string list \<Rightarrow> exWorld \<Rightarrow> (bool \<times> error option) \<times> exWorld" where
  "exParse [] w = ((False, None), w)"
| "exParse (a # rest) w =
     (if a = ''--help'' then ((False, Some ErrHelp), w)
      else if a = ''--version'' then
        (let ((_, err), w') = exParse rest w in ((True, err), w'))
      else if a = ''--config-path'' then
        (case rest of
           [] \<Rightarrow> ((False, Some (Failure ''flag needs an argument: --config-path'')), w)
         | path # rest' \<Rightarrow> exParse rest' ((''config-path'', [path]) # w))
      else ((False, Some (Failure (''unknown flag: '' @ a))), w))"

definition exNewCloudHandlerFactoryFromViper ::
  "exWorld \<Rightarrow> (string option \<times> error option) \<times> exWorld" where
  "exNewCloudHandlerFactoryFromViper w =
     (let provider = exGetString ''cloud-provider'' w
      in if provider = [] then ((None, None), w)
         else if provider = ''aws'' \<or> provider = ''k8s'' then ((Some provider, None), w)
         else ((None, Some (Failure (''unknown cloud provider: '' @ provider))), w))"

definition exInitBackend :: "string \<Rightarrow> exWorld \<Rightarrow> (string option \<times> error option) \<times> exWorld" where
  "exInitBackend name w =
     (if name = ''datadog'' \<or> name = ''graphite'' \<or> name = ''stdout''
      then ((Some name, None), w)
      else ((None, Some (Failure (''unknown backend: '' @ name))), w))"

definition exServerRun :: "string \<Rightarrow> error option" where
  "exServerRun mode =
     (if mode = ''forwarder'' then Some (Failure ''listen udp :8125: address already in use'')
      else if mode = ''standalone'' then Some Canceled
      else None)"

definition exReadInConfig :: "exWorld \<Rightarrow> error option \<times> exWorld" where
  "exReadInConfig w =
     (if exGetString ''config-file'' w = ''gostatsd.toml''
      then (None, (''backends'', [''datadog'', ''graphite'']) #
                  (''percent-threshold'', [''90'', ''99'']) # w)
      else (Some (Failure ''open: no such file or directory''), w))"

definition exEnv :: "string list \<Rightarrow> (exWorld, unit, rat, string, string, unit, unit) env" where
  "exEnv args =
     \<lparr> Version = ''1.0'', GitCommit = ''abc'', BuildDate = ''today'',
       Args = args,
       statsdParam = exParam,
       ParseFloat = exParseFloat,
       float64OfInt = of_int,
       float64Quo = (\<lambda>x y. x / y),
       GetString = (\<lambda>v. exGetString),
       GetStringSlice = (\<lambda>v. exGetStringSlice),
       GetBool = (\<lambda>v k w. exGetString k w = ''true''),
       GetInt = (\<lambda>v. exGetInt),
       GetDuration = (\<lambda>v. exGetInt),
       GetFloat64 = (\<lambda>v k w. fst (exParseFloat (exGetString k w))),
       viperNew = (\<lambda>w. ((), w)),
       InitViper = (\<lambda>v prefix w. ((), w)),
       AddFlags = flagString ''backends'' ''graphite'' ''Comma-separated list of backends'',
       BindPFlag = (\<lambda>v name f w. (None, w)),
       Parse = (\<lambda>cmd. exParse),
       SetConfigFile = (\<lambda>v path w. ((), (''config-file'', [path]) # w)),
       ReadInConfig = (\<lambda>v. exReadInConfig),
       NewTransportPool = (\<lambda>v w. ((), w)),
       NewCloudHandlerFactoryFromViper = (\<lambda>v version. exNewCloudHandlerFactoryFromViper),
       InitCloudProvider =
         (\<lambda>c v w. (if c = ''aws'' then None
                    else Some (Failure ''cloud provider not reachable''), w)),
       InitBackend = (\<lambda>name v pool. exInitBackend name),
       DisabledSubMetrics = (\<lambda>v w. ()),
       ServerRun = (\<lambda>s ctx w. (exServerRun (ServerMode s), w)) \<rparr>"



definition exHash :: "MetricIdentity \<Rightarrow> nat" where
  \<comment> \<open>A hash for the examples: the bytes of the name and of the tags, summed.\<close>
  "exHash ident =
     sum_list (map of_char (identityName ident)) +
     sum_list (map (\<lambda>t. sum_list (map of_char t)) (identityTags ident))"

section \<open>Properties\<close>

subsection \<open>\<^verbatim>\<open>getPercentiles\<close>\<close>

lemma getPercentiles_loop_ok:
  "\<forall>x\<in>set ss. snd (ParseFloat env x) = None \<Longrightarrow> i + length ss \<le> length pts \<Longrightarrow>
   getPercentiles_loop env i ss pts =
     (Some (take i pts @ map (\<lambda>x. fst (ParseFloat env x)) ss @ drop (i + length ss) pts), None)"
proof (induction ss arbitrary: i pts)
  case Nil
  then show ?case by simp
next
  case (Cons x xs)
  have "getPercentiles_loop env (Suc i) xs (pts[i := fst (ParseFloat env x)]) =
     (Some (take (Suc i) (pts[i := fst (ParseFloat env x)]) @ map (\<lambda>x. fst (ParseFloat env x)) xs @
        drop (Suc i + length xs) (pts[i := fst (ParseFloat env x)])), None)"
    using Cons.prems by (intro Cons.IH) auto
  moreover have "take (Suc i) (pts[i := fst (ParseFloat env x)]) = take i pts @ [fst (ParseFloat env x)]"
    using Cons.prems(2) by (simp add: take_Suc_conv_app_nth)
  ultimately show ?case using Cons.prems by (simp add: split_beta)
qed

lemma getPercentiles_loop_err:
  "j < length ss \<Longrightarrow> snd (ParseFloat env (ss ! j)) = Some e \<Longrightarrow>
   \<forall>k<j. snd (ParseFloat env (ss ! k)) = None \<Longrightarrow>
   getPercentiles_loop env i ss pts = (None, Some e)"
proof (induction ss arbitrary: i j pts)
  case Nil
  then show ?case by simp
next
  case (Cons x xs)
  show ?case
  proof (cases j)
    case 0
    with Cons.prems show ?thesis by (simp add: split_beta)
  next
    case (Suc j')
    have x: "snd (ParseFloat env x) = None" using Cons.prems(3) Suc by auto
    have "getPercentiles_loop env (Suc i) xs (pts[i := fst (ParseFloat env x)]) = (None, Some e)"
      using Cons.prems Suc by (intro Cons.IH[of j']) auto
    with x show ?thesis by (simp add: split_beta)
  qed
qed

lemma first_failing:
  assumes "\<exists>x\<in>set ss. P x"
  shows "\<exists>j<length ss. P (ss ! j) \<and> (\<forall>k<j. \<not> P (ss ! k))"
proof -
  from assms obtain n where n: "n < length ss \<and> P (ss ! n)"
    by (auto simp: in_set_conv_nth)
  define j where "j = (LEAST n. n < length ss \<and> P (ss ! n))"
  have j: "j < length ss \<and> P (ss ! j)"
    unfolding j_def using n by (rule LeastI)
  have "\<not> P (ss ! k)" if "k < j" for k
  proof
    assume "P (ss ! k)"
    with that j have "k < length ss \<and> P (ss ! k)" by simp
    then have "j \<le> k" unfolding j_def by (rule Least_le)
    with that show False by simp
  qed
  with j show ?thesis by blast
qed

text \<open>
  Claim C7. \<^verbatim>\<open>getPercentiles\<close> returns an error if and only if some element of its
  input fails to parse as a floating-point number. Then the returned slice is nil and the
  error is the parse error of the first failing element, in order. When every element
  parses, it returns a slice of the length of the input whose element at each index is
  the parsed value of the input string at that index.
\<close>

theorem getPercentiles_spec:
  "(snd (getPercentiles env s) \<noteq> None \<longleftrightarrow> (\<exists>x\<in>set s. snd (ParseFloat env x) \<noteq> None)) \<and>
   (\<forall>j e. j < length s \<and> snd (ParseFloat env (s ! j)) = Some e \<and>
           (\<forall>k<j. snd (ParseFloat env (s ! k)) = None) \<longrightarrow>
           getPercentiles env s = (None, Some e)) \<and>
   ((\<forall>x\<in>set s. snd (ParseFloat env x) = None) \<longrightarrow>
      (\<exists>pts. getPercentiles env s = (Some pts, None) \<and> length pts = length s \<and>
             (\<forall>j<length s. pts ! j = fst (ParseFloat env (s ! j)))))"
proof (intro conjI allI impI)
  show "snd (getPercentiles env s) \<noteq> None \<longleftrightarrow> (\<exists>x\<in>set s. snd (ParseFloat env x) \<noteq> None)"
  proof
    assume err: "snd (getPercentiles env s) \<noteq> None"
    show "\<exists>x\<in>set s. snd (ParseFloat env x) \<noteq> None"
    proof (rule ccontr)
      assume "\<not> (\<exists>x\<in>set s. snd (ParseFloat env x) \<noteq> None)"
      then have "\<forall>x\<in>set s. snd (ParseFloat env x) = None" by simp
      then have "snd (getPercentiles env s) = None"
        using getPercentiles_loop_ok[of s env 0 "replicate (length s) (float64OfInt env 0)"]
        by (simp add: getPercentiles_def)
      with err show False by simp
    qed
  next
    assume "\<exists>x\<in>set s. snd (ParseFloat env x) \<noteq> None"
    from first_failing[OF this] obtain j e where
      "j < length s" "snd (ParseFloat env (s ! j)) = Some e"
      "\<forall>k<j. snd (ParseFloat env (s ! k)) = None" by auto
    then show "snd (getPercentiles env s) \<noteq> None"
      using getPercentiles_loop_err[of j s env e] by (simp add: getPercentiles_def)
  qed
next
  fix j e
  assume "j < length s \<and> snd (ParseFloat env (s ! j)) = Some e \<and>
          (\<forall>k<j. snd (ParseFloat env (s ! k)) = None)"
  then show "getPercentiles env s = (None, Some e)"
    using getPercentiles_loop_err[of j s env e] by (simp add: getPercentiles_def)
next
  assume "\<forall>x\<in>set s. snd (ParseFloat env x) = None"
  then have "getPercentiles env s = (Some (map (\<lambda>x. fst (ParseFloat env x)) s), None)"
    using getPercentiles_loop_ok[of s env 0 "replicate (length s) (float64OfInt env 0)"]
    by (simp add: getPercentiles_def)
  then show "\<exists>pts. getPercentiles env s = (Some pts, None) \<and> length pts = length s \<and>
             (\<forall>j<length s. pts ! j = fst (ParseFloat env (s ! j)))"
    by simp
qed

text \<open>
  The theorem at work: the second of three strings fails to parse, and two strings that
  both parse.
\<close>

theorem getPercentiles_spec_witness:
  "getPercentiles (exEnv []) [''90'', ''9x'', ''y''] =
     (None, Some (Failure ''strconv.ParseFloat: invalid syntax: 9x'')) \<and>
   snd (getPercentiles (exEnv []) [''90'', ''9x'', ''y'']) \<noteq> None \<and>
   (\<exists>pts. getPercentiles (exEnv []) [''90'', ''99''] = (Some pts, None) \<and> length pts = 2 \<and>
          pts ! 0 = 90 \<and> pts ! 1 = 99)"
proof -
  have pf: "ParseFloat (exEnv []) = exParseFloat" by (simp add: exEnv_def)
  have a: "getPercentiles (exEnv []) [''90'', ''9x'', ''y''] =
     (None, Some (Failure ''strconv.ParseFloat: invalid syntax: 9x''))"
    using getPercentiles_spec[of "exEnv []" "[''90'', ''9x'', ''y'']", THEN conjunct2, THEN conjunct1,
        rule_format, of 1 "Failure ''strconv.ParseFloat: invalid syntax: 9x''"]
    by (simp add: pf exParseFloat_def)
  have b: "\<exists>pts. getPercentiles (exEnv []) [''90'', ''99''] = (Some pts, None) \<and>
      length pts = length [''90'', ''99''] \<and>
      (\<forall>j<length [''90'', ''99'']. pts ! j = fst (ParseFloat (exEnv []) ([''90'', ''99''] ! j)))"
    using getPercentiles_spec[of "exEnv []" "[''90'', ''99'']", THEN conjunct2, THEN conjunct2]
    by (simp add: pf exParseFloat_def)
  then obtain pts where p: "getPercentiles (exEnv []) [''90'', ''99''] = (Some pts, None)"
    "length pts = 2" "\<forall>j<2. pts ! j = fst (exParseFloat ([''90'', ''99''] ! j))"
    by (auto simp: pf)
  from p(3) have "pts ! 0 = 90" "pts ! 1 = 99"
    by (simp_all add: exParseFloat_def)
  with p a show ?thesis by simp
qed

subsection \<open>\<^verbatim>\<open>constructServer\<close>: the stages and what each leaves behind\<close>

lemma extern_eq:
  "extern c f st = (fst (f (world st)), st\<lparr>world := snd (f (world st)), trace := trace st @ [c]\<rparr>)"
  by (simp add: extern_def split_beta)

lemma initBackendCalls_append [simp]:
  "initBackendCalls (xs @ ys) = initBackendCalls xs @ initBackendCalls ys"
  by (induction xs rule: initBackendCalls.induct) auto

lemma initBackendCalls_map [simp]: "initBackendCalls (map CallInitBackend names) = names"
  by (induction names) auto

lemma backends_loop_ok:
  "\<forall>r\<in>set (initResults env v pool names (world st)). snd r = None \<Longrightarrow>
   i + length names \<le> length bl \<Longrightarrow>
   constructServer_backends env v pool i names bl st =
     ((None, take i bl @ map fst (initResults env v pool names (world st)) @
             drop (i + length names) bl),
      st\<lparr>world := initWorld env v pool names (world st),
         trace := trace st @ map CallInitBackend names\<rparr>)"
proof (induction names arbitrary: i bl st)
  case Nil
  then show ?case by simp
next
  case (Cons name rest)
  let ?r = "InitBackend env name v pool (world st)"
  let ?st' = "st\<lparr>world := snd ?r, trace := trace st @ [CallInitBackend name]\<rparr>"
  let ?bl' = "bl[i := fst (fst ?r)]"
  have ok: "snd (fst ?r) = None" using Cons.prems(1) by simp
  have "constructServer_backends env v pool (Suc i) rest ?bl' ?st' =
     ((None, take (Suc i) ?bl' @ map fst (initResults env v pool rest (world ?st')) @
             drop (Suc i + length rest) ?bl'),
      ?st'\<lparr>world := initWorld env v pool rest (world ?st'),
           trace := trace ?st' @ map CallInitBackend rest\<rparr>)"
    using Cons.prems by (intro Cons.IH) auto
  moreover have "take (Suc i) ?bl' = take i bl @ [fst (fst ?r)]"
    using Cons.prems(2) by (simp add: take_Suc_conv_app_nth)
  ultimately show ?case using ok
    by (simp add: extern_eq split_beta)
qed

lemma backends_loop_err:
  "j < length names \<Longrightarrow> snd (initResults env v pool names (world st) ! j) = Some e \<Longrightarrow>
   \<forall>k<j. snd (initResults env v pool names (world st) ! k) = None \<Longrightarrow>
   \<exists>bl' w'. constructServer_backends env v pool i names bl st =
     ((Some e, bl'), st\<lparr>world := w', trace := trace st @ map CallInitBackend (take (Suc j) names)\<rparr>)"
proof (induction names arbitrary: i j bl st)
  case Nil
  then show ?case by simp
next
  case (Cons name rest)
  let ?r = "InitBackend env name v pool (world st)"
  let ?st' = "st\<lparr>world := snd ?r, trace := trace st @ [CallInitBackend name]\<rparr>"
  show ?case
  proof (cases j)
    case 0
    with Cons.prems show ?thesis
      by (auto simp: extern_eq split_beta)
  next
    case (Suc j')
    have ok: "snd (fst ?r) = None" using Cons.prems(3) Suc by auto
    have "\<exists>bl' w'. constructServer_backends env v pool (Suc i) rest (bl[i := fst (fst ?r)]) ?st' =
       ((Some e, bl'), ?st'\<lparr>world := w', trace := trace ?st' @ map CallInitBackend (take (Suc j') rest)\<rparr>)"
      using Cons.prems Suc by (intro Cons.IH) auto
    then show ?thesis using ok Suc
      by (auto simp: extern_eq split_beta)
  qed
qed

lemma constructServer_factory_err:
  assumes "NewTransportPool env v (world st) = (pool, w1)"
      and "NewCloudHandlerFactoryFromViper env v (Version env) w1 = ((cloud, Some e), w2)"
  shows "constructServer env v st =
           (Returned (Inl e),
            st\<lparr>world := w2,
               trace := trace st @ [CallNewTransportPool, CallNewCloudHandlerFactoryFromViper]\<rparr>)"
  using assms by (simp add: constructServer_def extern_eq)

lemma constructServer_provider_err:
  assumes "NewTransportPool env v (world st) = (pool, w1)"
      and "NewCloudHandlerFactoryFromViper env v (Version env) w1 = ((Some c, None), w2)"
      and "InitCloudProvider env c v w2 = (Some e, w3)"
  shows "constructServer env v st =
           (Returned (Inl e),
            st\<lparr>world := w3,
               trace := trace st @ [CallNewTransportPool, CallNewCloudHandlerFactoryFromViper,
                                    CallInitCloudProvider]\<rparr>)"
  using assms by (simp add: constructServer_def cloud_InitCloudProvider_def extern_eq)

lemma constructServer_after_cloud:
  assumes "NewTransportPool env v (world st) = (pool, w1)"
      and "NewCloudHandlerFactoryFromViper env v (Version env) w1 = ((cloud, None), w2)"
      and "case cloud of None \<Rightarrow> w3 = w2 | Some c \<Rightarrow> InitCloudProvider env c v w2 = (None, w3)"
      and "st3 = st\<lparr>world := w3,
              trace := trace st @ [CallNewTransportPool, CallNewCloudHandlerFactoryFromViper] @
                       (case cloud of None \<Rightarrow> [] | Some c \<Rightarrow> [CallInitCloudProvider])\<rparr>"
      and "names = GetStringSlice env v (statsdParam env ParamBackends) w3"
  shows "constructServer env v st =
           (case constructServer_backends env v pool 0 names (replicate (length names) None) st3 of
              ((Some errBackend, bl), st4) \<Rightarrow> (Returned (Inl errBackend), st4)
            | ((None, bl), st4) \<Rightarrow>
                (case getPercentiles env
                        (GetStringSlice env v (statsdParam env ParamPercentThreshold) (world st4)) of
                   (pt, Some e) \<Rightarrow> (Returned (Inl e), st4)
                 | (pt, None) \<Rightarrow>
                     (Returned (Inr (newServer env v (world st4) bl cloud pt pool)), st4)))"
proof (cases cloud)
  case None
  with assms show ?thesis
    by (auto simp: constructServer_def extern_eq Let_def split: prod.splits option.splits)
next
  case (Some c)
  with assms show ?thesis
    by (auto simp: constructServer_def cloud_InitCloudProvider_def extern_eq Let_def
             split: prod.splits option.splits)
qed

lemma getPercentiles_ok:
  "\<forall>x\<in>set s. snd (ParseFloat env x) = None \<Longrightarrow>
   getPercentiles env s = (Some (map (\<lambda>x. fst (ParseFloat env x)) s), None)"
  using getPercentiles_loop_ok[of s env 0 "replicate (length s) (float64OfInt env 0)"]
  by (simp add: getPercentiles_def)

lemma getPercentiles_fails:
  assumes "\<exists>x\<in>set s. snd (ParseFloat env x) \<noteq> None"
  shows "\<exists>e. getPercentiles env s = (None, Some e)"
proof -
  from first_failing[OF assms] obtain j e where
    "j < length s" "snd (ParseFloat env (s ! j)) = Some e"
    "\<forall>k<j. snd (ParseFloat env (s ! k)) = None" by auto
  then show ?thesis
    using getPercentiles_loop_err[of j s env e] by (auto simp: getPercentiles_def)
qed

lemma constructServer_backend_err:
  assumes "NewTransportPool env v (world st) = (pool, w1)"
      and "NewCloudHandlerFactoryFromViper env v (Version env) w1 = ((cloud, None), w2)"
      and "case cloud of None \<Rightarrow> w3 = w2 | Some c \<Rightarrow> InitCloudProvider env c v w2 = (None, w3)"
      and "names = GetStringSlice env v (statsdParam env ParamBackends) w3"
      and "j < length names"
      and "snd (initResults env v pool names w3 ! j) = Some e"
      and "\<forall>k<j. snd (initResults env v pool names w3 ! k) = None"
  shows "\<exists>w'. constructServer env v st =
           (Returned (Inl e),
            st\<lparr>world := w',
               trace := trace st @ [CallNewTransportPool, CallNewCloudHandlerFactoryFromViper] @
                        (case cloud of None \<Rightarrow> [] | Some c \<Rightarrow> [CallInitCloudProvider]) @
                        map CallInitBackend (take (Suc j) names)\<rparr>)"
proof -
  define st3 where "st3 = st\<lparr>world := w3,
              trace := trace st @ [CallNewTransportPool, CallNewCloudHandlerFactoryFromViper] @
                       (case cloud of None \<Rightarrow> [] | Some c \<Rightarrow> [CallInitCloudProvider])\<rparr>"
  have w: "world st3 = w3" by (simp add: st3_def)
  from backends_loop_err[of j names env v pool st3 e 0 "replicate (length names) None"] assms(5-7)
  obtain bl' w' where
    "constructServer_backends env v pool 0 names (replicate (length names) None) st3 =
       ((Some e, bl'), st3\<lparr>world := w', trace := trace st3 @ map CallInitBackend (take (Suc j) names)\<rparr>)"
    unfolding w by blast
  then have "constructServer env v st =
      (Returned (Inl e), st3\<lparr>world := w', trace := trace st3 @ map CallInitBackend (take (Suc j) names)\<rparr>)"
    using constructServer_after_cloud[OF assms(1-3) st3_def assms(4)] by simp
  then show ?thesis by (auto simp: st3_def)
qed

lemma constructServer_backends_ok:
  assumes "NewTransportPool env v (world st) = (pool, w1)"
      and "NewCloudHandlerFactoryFromViper env v (Version env) w1 = ((cloud, None), w2)"
      and "case cloud of None \<Rightarrow> w3 = w2 | Some c \<Rightarrow> InitCloudProvider env c v w2 = (None, w3)"
      and "names = GetStringSlice env v (statsdParam env ParamBackends) w3"
      and "\<forall>r\<in>set (initResults env v pool names w3). snd r = None"
      and "w4 = initWorld env v pool names w3"
      and "st4 = st\<lparr>world := w4,
               trace := trace st @ [CallNewTransportPool, CallNewCloudHandlerFactoryFromViper] @
                        (case cloud of None \<Rightarrow> [] | Some c \<Rightarrow> [CallInitCloudProvider]) @
                        map CallInitBackend names\<rparr>"
  shows "constructServer env v st =
           (case getPercentiles env
                   (GetStringSlice env v (statsdParam env ParamPercentThreshold) w4) of
              (pt, Some e) \<Rightarrow> (Returned (Inl e), st4)
            | (pt, None) \<Rightarrow>
                (Returned (Inr (newServer env v w4 (map fst (initResults env v pool names w3))
                                  cloud pt pool)), st4))"
proof -
  define st3 where "st3 = st\<lparr>world := w3,
              trace := trace st @ [CallNewTransportPool, CallNewCloudHandlerFactoryFromViper] @
                       (case cloud of None \<Rightarrow> [] | Some c \<Rightarrow> [CallInitCloudProvider])\<rparr>"
  have w: "world st3 = w3" by (simp add: st3_def)
  have st4: "st3\<lparr>world := initWorld env v pool names w3,
                     trace := trace st3 @ map CallInitBackend names\<rparr> = st4"
    by (simp add: st3_def assms(6,7))
  have loop: "constructServer_backends env v pool 0 names (replicate (length names) None) st3 =
      ((None, map fst (initResults env v pool names w3)), st4)"
    using backends_loop_ok[of env v pool names st3 0 "replicate (length names) None"] assms(5)
    unfolding w st4 by simp
  have w4: "world st4 = w4" by (simp add: assms(7))
  show ?thesis
    unfolding constructServer_after_cloud[OF assms(1-3) st3_def assms(4)] loop
    by (simp add: w4)
qed

subsection \<open>Results that carry a server\<close>

lemma returned_Inr:
  "is_Returned (fst x) \<and> \<not> isl (returned (fst x)) \<Longrightarrow>
   x = (Returned (Inr (projr (returned (fst x)))), snd x)"
  by (cases x; cases "fst x"; cases "returned (fst x)") auto

subsection \<open>\<^verbatim>\<open>constructServer\<close> without a cloud handler factory\<close>

lemma length_initResults [simp]: "length (initResults env v pool names w) = length names"
  by (induction names arbitrary: w) auto

text \<open>
  Claim C8. When no cloud handler factory is configured, that is when
  \<^verbatim>\<open>NewCloudHandlerFactoryFromViper\<close> returns nil with no error, \<^verbatim>\<open>constructServer\<close>
  never calls \<^verbatim>\<open>InitCloudProvider\<close> and never panics on the nil pointer; it returns,
  and it returns a server exactly when every backend initialises and every percentile
  threshold parses, so the nil factory causes no error; the server it returns carries the
  nil \<^verbatim>\<open>CloudHandlerFactory\<close>.
\<close>

theorem nil_cloud_factory_skipped:
  fixes env :: "('w, 'v, 'f, 'c, 'b, 'p, 'd) env"
  assumes "NewTransportPool env v (world st) = (pool, w1)"
      and "NewCloudHandlerFactoryFromViper env v (Version env) w1 = ((None, None), w2)"
      and "names = GetStringSlice env v (statsdParam env ParamBackends) w2"
      and "percentiles = GetStringSlice env v (statsdParam env ParamPercentThreshold)
                           (initWorld env v pool names w2)"
  shows "\<exists>r st' tr. constructServer env v st = (Returned r, st') \<and>
           trace st' = trace st @ tr \<and> CallInitCloudProvider \<notin> set tr \<and>
           (\<forall>s. r = Inr s \<longrightarrow> CloudHandlerFactory s = None) \<and>
           ((\<exists>s. r = Inr s) \<longleftrightarrow>
              (\<forall>x\<in>set (initResults env v pool names w2). snd x = None) \<and>
              (\<forall>x\<in>set percentiles. snd (ParseFloat env x) = None))"
proof -
  have prov: "case None :: 'c option of None \<Rightarrow> w2 = w2
              | Some c \<Rightarrow> InitCloudProvider env c v w2 = (None, w2)" by simp
  show ?thesis
  proof (cases "\<exists>x\<in>set (initResults env v pool names w2). snd x \<noteq> None")
    case True
    from first_failing[OF True] obtain j e where j: "j < length (initResults env v pool names w2)"
      "snd (initResults env v pool names w2 ! j) = Some e"
      "\<forall>k<j. snd (initResults env v pool names w2 ! k) = None" by auto
    have len: "length (initResults env v pool names w2) = length names"
      by (rule length_initResults)
    from constructServer_backend_err[OF assms(1,2) prov assms(3) j(1)[unfolded len] j(2,3)]
    obtain w' where "constructServer env v st =
       (Returned (Inl e), st\<lparr>world := w',
          trace := trace st @ [CallNewTransportPool, CallNewCloudHandlerFactoryFromViper] @
                   (case None :: 'c option of None \<Rightarrow> [] | Some c \<Rightarrow> [CallInitCloudProvider]) @
                   map CallInitBackend (take (Suc j) names)\<rparr>)" by blast
    with True show ?thesis by auto
  next
    case False
    then have ok: "\<forall>r\<in>set (initResults env v pool names w2). snd r = None" by simp
    note cs = constructServer_backends_ok[OF assms(1,2) prov assms(3) ok refl refl]
    show ?thesis
    proof (cases "\<exists>x\<in>set percentiles. snd (ParseFloat env x) \<noteq> None")
      case True
      from getPercentiles_fails[OF True] obtain e where "getPercentiles env percentiles = (None, Some e)"
        by blast
      with cs True show ?thesis unfolding assms(4) by auto
    next
      case False
      then have "\<forall>x\<in>set percentiles. snd (ParseFloat env x) = None" by simp
      from getPercentiles_ok[OF this] cs ok this show ?thesis
        unfolding assms(4) by (auto simp: newServer_def)
    qed
  qed
qed

text \<open>No cloud provider configured, two backends and one percentile threshold.\<close>

theorem nil_cloud_factory_skipped_witness:
  "\<exists>s st'. constructServer (exEnv []) ()
              (initState [(''backends'', [''datadog'', ''stdout'']), (''percent-threshold'', [''90''])]) =
              (Returned (Inr s), st') \<and>
           CloudHandlerFactory s = None \<and> CallInitCloudProvider \<notin> set (trace st')"
proof -
  let ?W = "[(''backends'', [''datadog'', ''stdout'']), (''percent-threshold'', [''90''])]"
  have a1: "NewTransportPool (exEnv []) () (world (initState ?W)) = ((), ?W)" by code_simp
  have a2: "NewCloudHandlerFactoryFromViper (exEnv []) () (Version (exEnv [])) ?W =
              ((None, None), ?W)" by code_simp
  have a3: "[''datadog'', ''stdout''] =
              GetStringSlice (exEnv []) () (statsdParam (exEnv []) ParamBackends) ?W" by code_simp
  have a4: "[''90''] = GetStringSlice (exEnv []) () (statsdParam (exEnv []) ParamPercentThreshold)
                         (initWorld (exEnv []) () () [''datadog'', ''stdout''] ?W)" by code_simp
  have b: "initResults (exEnv []) () () [''datadog'', ''stdout''] ?W =
             [(Some ''datadog'', None), (Some ''stdout'', None)]" by code_simp
  have p: "snd (ParseFloat (exEnv []) ''90'') = None" by code_simp
  have t: "trace (initState ?W) = []" by code_simp
  from nil_cloud_factory_skipped[OF a1 a2 a3 a4]
  show ?thesis unfolding b t by (auto simp: p)
qed

subsection \<open>The backends of the server\<close>

text \<open>
  Claim C4. For every configured list of \<open>n\<close> backend names, \<^verbatim>\<open>constructServer\<close> either
  returns an error, exactly when some backend's initialization fails and aborting at the
  first failing name, or returns a server whose \<^verbatim>\<open>Backends\<close> slice has length \<open>n\<close> and
  whose element at each index is the backend initialized from the configured name at that
  index.

  As stated this fails: \<^verbatim>\<open>constructServer\<close> also returns an error when no backend fails.
  Below, the only configured backend initialises without error and the percentile
  threshold \<open>9x\<close> does not parse.
\<close>

theorem backends_only_error_counterexample:
  "fst (constructServer (exEnv []) ()
         (initState [(''backends'', [''datadog'']), (''percent-threshold'', [''9x''])])) =
     Returned (Inl (Failure ''strconv.ParseFloat: invalid syntax: 9x'')) \<and>
   GetStringSlice (exEnv []) () (statsdParam (exEnv []) ParamBackends)
     [(''backends'', [''datadog'']), (''percent-threshold'', [''9x''])] = [''datadog''] \<and>
   InitBackend (exEnv []) ''datadog'' () ()
     [(''backends'', [''datadog'']), (''percent-threshold'', [''9x''])] =
     ((Some ''datadog'', None), [(''backends'', [''datadog'']), (''percent-threshold'', [''9x''])]) \<and>
   trace (snd (constructServer (exEnv []) ()
         (initState [(''backends'', [''datadog'']), (''percent-threshold'', [''9x''])]))) =
     [CallNewTransportPool, CallNewCloudHandlerFactoryFromViper, CallInitBackend ''datadog'']"
  by code_simp

text \<open>
  Claim C4, amended. Once the transport pool and the cloud handler factory are set up
  without error, \<^verbatim>\<open>constructServer\<close> returns, and it returns an error exactly when some
  backend's initialization fails or some percentile threshold fails to parse. A failing
  backend aborts the loop at the first failing name: the error returned is that
  backend's and no later name is initialised. Every server returned has a \<^verbatim>\<open>Backends\<close>
  slice of length \<open>n\<close> whose element at each index is the backend initialized from the
  configured name at that index.
\<close>

theorem backends_in_configuration_order:
  fixes env :: "('w, 'v, 'f, 'c, 'b, 'p, 'd) env"
  assumes "NewTransportPool env v (world st) = (pool, w1)"
      and "NewCloudHandlerFactoryFromViper env v (Version env) w1 = ((cloud, None), w2)"
      and "case cloud of None \<Rightarrow> w3 = w2 | Some c \<Rightarrow> InitCloudProvider env c v w2 = (None, w3)"
      and "names = GetStringSlice env v (statsdParam env ParamBackends) w3"
      and "percentiles = GetStringSlice env v (statsdParam env ParamPercentThreshold)
                           (initWorld env v pool names w3)"
      and "rs = initResults env v pool names w3"
  shows "(\<exists>r. fst (constructServer env v st) = Returned r \<and>
            ((\<exists>e. r = Inl e) \<longleftrightarrow>
               (\<exists>x\<in>set rs. snd x \<noteq> None) \<or> (\<exists>x\<in>set percentiles. snd (ParseFloat env x) \<noteq> None)) \<and>
            (\<forall>s. r = Inr s \<longrightarrow>
               length (Backends s) = length names \<and>
               (\<forall>i<length names. Backends s ! i = fst (rs ! i)))) \<and>
         (\<forall>j e. j < length names \<and> snd (rs ! j) = Some e \<and> (\<forall>k<j. snd (rs ! k) = None) \<longrightarrow>
            fst (constructServer env v st) = Returned (Inl e) \<and>
            initBackendCalls (trace (snd (constructServer env v st))) =
              initBackendCalls (trace st) @ take (Suc j) names)"
proof (intro conjI allI impI)
  show "\<exists>r. fst (constructServer env v st) = Returned r \<and>
            ((\<exists>e. r = Inl e) \<longleftrightarrow>
               (\<exists>x\<in>set rs. snd x \<noteq> None) \<or> (\<exists>x\<in>set percentiles. snd (ParseFloat env x) \<noteq> None)) \<and>
            (\<forall>s. r = Inr s \<longrightarrow>
               length (Backends s) = length names \<and>
               (\<forall>i<length names. Backends s ! i = fst (rs ! i)))"
  proof (cases "\<exists>x\<in>set rs. snd x \<noteq> None")
    case True
    from first_failing[OF True] obtain j e where j: "j < length rs"
      "snd (rs ! j) = Some e" "\<forall>k<j. snd (rs ! k) = None" by auto
    from constructServer_backend_err[OF assms(1-4) j(1)[unfolded assms(6) length_initResults]
        j(2,3)[unfolded assms(6)] ]
    have "fst (constructServer env v st) = Returned (Inl e)" by auto
    with True show ?thesis by simp
  next
    case False
    then have ok: "\<forall>r\<in>set (initResults env v pool names w3). snd r = None"
      by (simp add: assms(6))
    note cs = constructServer_backends_ok[OF assms(1-4) ok refl refl]
    show ?thesis
    proof (cases "\<exists>x\<in>set percentiles. snd (ParseFloat env x) \<noteq> None")
      case True
      from getPercentiles_fails[OF True] obtain e where "getPercentiles env percentiles = (None, Some e)"
        by blast
      with cs True show ?thesis unfolding assms(5) by auto
    next
      case no: False
      then have "\<forall>x\<in>set percentiles. snd (ParseFloat env x) = None" by simp
      from getPercentiles_ok[OF this] cs False no show ?thesis
        unfolding assms(5) by (auto simp: newServer_def assms(6))
    qed
  qed
next
  fix j e
  assume "j < length names \<and> snd (rs ! j) = Some e \<and> (\<forall>k<j. snd (rs ! k) = None)"
  then have j: "j < length names" "snd (initResults env v pool names w3 ! j) = Some e"
    "\<forall>k<j. snd (initResults env v pool names w3 ! k) = None"
    by (simp_all add: assms(6))
  from constructServer_backend_err[OF assms(1-4) j] obtain w' where
    cs: "constructServer env v st =
      (Returned (Inl e), st\<lparr>world := w',
         trace := trace st @ [CallNewTransportPool, CallNewCloudHandlerFactoryFromViper] @
                  (case cloud of None \<Rightarrow> [] | Some c \<Rightarrow> [CallInitCloudProvider]) @
                  map CallInitBackend (take (Suc j) names)\<rparr>)" by blast
  show "fst (constructServer env v st) = Returned (Inl e)" by (simp add: cs)
  show "initBackendCalls (trace (snd (constructServer env v st))) =
          initBackendCalls (trace st) @ take (Suc j) names"
    by (simp add: cs split: option.split)
qed

text \<open>
  The amended claim at work: of the names \<open>datadog\<close>, \<open>nope\<close>, \<open>stdout\<close> the second
  fails and the third is never initialised; the names \<open>datadog\<close>, \<open>stdout\<close> give a
  server with the two backends in that order.
\<close>

theorem backends_in_configuration_order_witness:
  "fst (constructServer (exEnv []) ()
          (initState [(''backends'', [''datadog'', ''nope'', ''stdout''])])) =
     Returned (Inl (Failure ''unknown backend: nope'')) \<and>
   initBackendCalls (trace (snd (constructServer (exEnv []) ()
          (initState [(''backends'', [''datadog'', ''nope'', ''stdout''])])))) =
     [''datadog'', ''nope''] \<and>
   (\<exists>s. fst (constructServer (exEnv []) ()
               (initState [(''backends'', [''datadog'', ''stdout''])])) = Returned (Inr s) \<and>
        length (Backends s) = 2 \<and>
        Backends s ! 0 = Some ''datadog'' \<and> Backends s ! 1 = Some ''stdout'')"
proof -
  let ?W = "[(''backends'', [''datadog'', ''nope'', ''stdout''])]"
  let ?V = "[(''backends'', [''datadog'', ''stdout''])]"
  have a1: "NewTransportPool (exEnv []) () (world (initState ?W)) = ((), ?W)" by code_simp
  have a2: "NewCloudHandlerFactoryFromViper (exEnv []) () (Version (exEnv [])) ?W =
              ((None, None), ?W)" by code_simp
  have a3: "case None :: string option of None \<Rightarrow> ?W = ?W
            | Some c \<Rightarrow> InitCloudProvider (exEnv []) c () ?W = (None, ?W)" by simp
  have a4: "[''datadog'', ''nope'', ''stdout''] =
              GetStringSlice (exEnv []) () (statsdParam (exEnv []) ParamBackends) ?W" by code_simp
  have a5: "[] = GetStringSlice (exEnv []) () (statsdParam (exEnv []) ParamPercentThreshold)
                   (initWorld (exEnv []) () () [''datadog'', ''nope'', ''stdout''] ?W)" by code_simp
  have a6: "[(Some ''datadog'', None), (None, Some (Failure ''unknown backend: nope'')),
             (Some ''stdout'', None)] =
            initResults (exEnv []) () () [''datadog'', ''nope'', ''stdout''] ?W" by code_simp
  have t: "trace (initState ?W) = []" by code_simp
  from backends_in_configuration_order[OF a1 a2 a3 a4 a5 a6, THEN conjunct2, rule_format,
      of 1 "Failure ''unknown backend: nope''"]
  have bad: "fst (constructServer (exEnv []) () (initState ?W)) =
               Returned (Inl (Failure ''unknown backend: nope'')) \<and>
             initBackendCalls (trace (snd (constructServer (exEnv []) () (initState ?W)))) =
               [''datadog'', ''nope'']"
    unfolding t by (simp add: less_Suc_eq)
  have b1: "NewTransportPool (exEnv []) () (world (initState ?V)) = ((), ?V)" by code_simp
  have b2: "NewCloudHandlerFactoryFromViper (exEnv []) () (Version (exEnv [])) ?V =
              ((None, None), ?V)" by code_simp
  have b3: "case None :: string option of None \<Rightarrow> ?V = ?V
            | Some c \<Rightarrow> InitCloudProvider (exEnv []) c () ?V = (None, ?V)" by simp
  have b4: "[''datadog'', ''stdout''] =
              GetStringSlice (exEnv []) () (statsdParam (exEnv []) ParamBackends) ?V" by code_simp
  have b5: "[] = GetStringSlice (exEnv []) () (statsdParam (exEnv []) ParamPercentThreshold)
                   (initWorld (exEnv []) () () [''datadog'', ''stdout''] ?V)" by code_simp
  have b6: "[(Some ''datadog'', None), (Some ''stdout'', None)] =
            initResults (exEnv []) () () [''datadog'', ''stdout''] ?V" by code_simp
  from backends_in_configuration_order[OF b1 b2 b3 b4 b5 b6, THEN conjunct1]
  obtain r where r: "fst (constructServer (exEnv []) () (initState ?V)) = Returned r \<and>
            ((\<exists>e. r = Inl e) \<longleftrightarrow>
               (\<exists>x\<in>set [(Some ''datadog'', None :: error option), (Some ''stdout'', None)].
                  snd x \<noteq> None) \<or>
               (\<exists>x\<in>set []. snd (ParseFloat (exEnv []) x) \<noteq> None)) \<and>
            (\<forall>s. r = Inr s \<longrightarrow>
               length (Backends s) = length [''datadog'', ''stdout''] \<and>
               (\<forall>i<length [''datadog'', ''stdout''].
                  Backends s ! i =
                    fst ([(Some ''datadog'', None :: error option), (Some ''stdout'', None)] ! i)))" ..
  note r1 = r[THEN conjunct1] and r2 = r[THEN conjunct2, THEN conjunct1]
    and r3 = r[THEN conjunct2, THEN conjunct2]
  from r2 have "\<not> (\<exists>e. r = Inl e)" by simp
  then obtain s where s: "r = Inr s" by (cases r) auto
  with r3 have len: "length (Backends s) = 2"
    and el: "\<forall>i<2. Backends s ! i =
               fst ([(Some ''datadog'', None :: error option), (Some ''stdout'', None)] ! i)"
    by auto
  from el have "Backends s ! 0 = Some ''datadog''" "Backends s ! 1 = Some ''stdout''"
    by auto
  with len have "length (Backends s) = 2 \<and> Backends s ! 0 = Some ''datadog'' \<and>
      Backends s ! 1 = Some ''stdout''" by simp
  with r1 s bad show ?thesis by blast
qed

subsection \<open>Start-up errors\<close>

lemma go_simps [simp]:
  "world (go g st) = world st" "trace (go g st) = trace st"
  by (simp_all add: go_def)

lemma emit_simps [simp]:
  "world (emit c st) = world st" "trace (emit c st) = trace st @ [c]"
  by (simp_all add: emit_def)

lemma constructServer_fails:
  fixes env :: "('w, 'v, 'f, 'c, 'b, 'p, 'd) env"
  assumes "NewTransportPool env v w = (pool, w1)"
      and "NewCloudHandlerFactoryFromViper env v (Version env) w1 = ((cloud, ferr), w2)"
      and "case cloud of None \<Rightarrow> ierr = None \<and> w3 = w2
           | Some c \<Rightarrow> InitCloudProvider env c v w2 = (ierr, w3)"
      and "names = GetStringSlice env v (statsdParam env ParamBackends) w3"
      and "percentiles = GetStringSlice env v (statsdParam env ParamPercentThreshold)
                           (initWorld env v pool names w3)"
      and "ferr \<noteq> None \<or> ierr \<noteq> None \<or>
           (\<exists>x\<in>set (initResults env v pool names w3). snd x \<noteq> None) \<or>
           (\<exists>x\<in>set percentiles. snd (ParseFloat env x) \<noteq> None)"
  shows "\<exists>e. \<forall>st. world st = w \<longrightarrow>
           (\<exists>w' tr. constructServer env v st =
                      (Returned (Inl e), st\<lparr>world := w', trace := trace st @ tr\<rparr>) \<and>
                    (\<forall>ctx. CallServerRun ctx \<notin> set tr))"
proof (cases ferr)
  case (Some e)
  show ?thesis
  proof (intro exI[of _ e] allI impI)
    fix st :: "'w state" assume "world st = w"
    with assms(1) have "NewTransportPool env v (world st) = (pool, w1)" by simp
    from constructServer_factory_err[OF this assms(2)[unfolded Some] ]
    show "\<exists>w' tr. constructServer env v st =
            (Returned (Inl e), st\<lparr>world := w', trace := trace st @ tr\<rparr>) \<and>
            (\<forall>ctx. CallServerRun ctx \<notin> set tr)"
      by (intro exI[of _ w2] exI[of _ "[CallNewTransportPool, CallNewCloudHandlerFactoryFromViper]"])
         simp
  qed
next
  case None
  note fac = assms(2)[unfolded None]
  show ?thesis
  proof (cases ierr)
    case (Some e)
    with assms(3) obtain c where c: "cloud = Some c" "InitCloudProvider env c v w2 = (Some e, w3)"
      by (cases cloud) auto
    show ?thesis
    proof (intro exI[of _ e] allI impI)
      fix st :: "'w state" assume "world st = w"
      with assms(1) have "NewTransportPool env v (world st) = (pool, w1)" by simp
      from constructServer_provider_err[OF this fac[unfolded c(1)] c(2)]
      show "\<exists>w' tr. constructServer env v st =
              (Returned (Inl e), st\<lparr>world := w', trace := trace st @ tr\<rparr>) \<and>
              (\<forall>ctx. CallServerRun ctx \<notin> set tr)"
        by (intro exI[of _ w3] exI[of _ "[CallNewTransportPool, CallNewCloudHandlerFactoryFromViper,
                                           CallInitCloudProvider]"]) simp
    qed
  next
    case ok: None
    with assms(3) have prov: "case cloud of None \<Rightarrow> w3 = w2
        | Some c \<Rightarrow> InitCloudProvider env c v w2 = (None, w3)"
      by (cases cloud) auto
    let ?tr3 = "[CallNewTransportPool, CallNewCloudHandlerFactoryFromViper] @
                (case cloud of None \<Rightarrow> [] | Some c \<Rightarrow> [CallInitCloudProvider])"
    have tr3: "CallServerRun ctx \<notin> set ?tr3" for ctx by (cases cloud) auto
    show ?thesis
    proof (cases "\<exists>x\<in>set (initResults env v pool names w3). snd x \<noteq> None")
      case True
      from first_failing[OF True] obtain j e where j: "j < length names"
        "snd (initResults env v pool names w3 ! j) = Some e"
        "\<forall>k<j. snd (initResults env v pool names w3 ! k) = None" by auto
      show ?thesis
      proof (intro exI[of _ e] allI impI)
        fix st :: "'w state" assume "world st = w"
        with assms(1) have "NewTransportPool env v (world st) = (pool, w1)" by simp
        from constructServer_backend_err[OF this fac prov assms(4) j]
        obtain w' where "constructServer env v st =
           (Returned (Inl e), st\<lparr>world := w',
               trace := trace st @ ?tr3 @ map CallInitBackend (take (Suc j) names)\<rparr>)" by auto
        moreover have "\<forall>ctx. CallServerRun ctx \<notin> set (?tr3 @ map CallInitBackend (take (Suc j) names))"
          using tr3 by auto
        ultimately show "\<exists>w' tr. constructServer env v st =
              (Returned (Inl e), st\<lparr>world := w', trace := trace st @ tr\<rparr>) \<and>
              (\<forall>ctx. CallServerRun ctx \<notin> set tr)" by blast
      qed
    next
      case False
      then have allok: "\<forall>r\<in>set (initResults env v pool names w3). snd r = None" by simp
      from False None ok assms(6) have "\<exists>x\<in>set percentiles. snd (ParseFloat env x) \<noteq> None"
        by blast
      from getPercentiles_fails[OF this] obtain e where
        e: "getPercentiles env percentiles = (None, Some e)" by blast
      show ?thesis
      proof (intro exI[of _ e] allI impI)
        fix st :: "'w state" assume "world st = w"
        with assms(1) have "NewTransportPool env v (world st) = (pool, w1)" by simp
        from constructServer_backends_ok[OF this fac prov assms(4) allok refl refl] e
        have "constructServer env v st =
           (Returned (Inl e), st\<lparr>world := initWorld env v pool names w3,
               trace := trace st @ ?tr3 @ map CallInitBackend names\<rparr>)"
          by (simp add: assms(5))
        moreover have "\<forall>ctx. CallServerRun ctx \<notin> set (?tr3 @ map CallInitBackend names)"
          using tr3 by auto
        ultimately show "\<exists>w' tr. constructServer env v st =
              (Returned (Inl e), st\<lparr>world := w', trace := trace st @ tr\<rparr>) \<and>
              (\<forall>ctx. CallServerRun ctx \<notin> set tr)" by blast
      qed
    qed
  qed
qed

text \<open>
  Claim C1. Fatal start-up errors abort before the pipeline starts: if the creation of the
  cloud handler factory fails, or the initialization of its provider, or the
  initialization of a configured backend, or the parsing of a configured percentile
  threshold, then \<^verbatim>\<open>constructServer\<close> returns a non-nil error and \<^verbatim>\<open>run\<close> returns
  that error without a call of \<^verbatim>\<open>Server.Run\<close>. The hypotheses name what each
  collaborator returns in the world in which \<^verbatim>\<open>constructServer\<close> reaches it.
\<close>

theorem startup_errors_abort:
  fixes env :: "('w, 'v, 'f, 'c, 'b, 'p, 'd) env"
  assumes "NewTransportPool env v (world st) = (pool, w1)"
      and "NewCloudHandlerFactoryFromViper env v (Version env) w1 = ((cloud, ferr), w2)"
      and "case cloud of None \<Rightarrow> ierr = None \<and> w3 = w2
           | Some c \<Rightarrow> InitCloudProvider env c v w2 = (ierr, w3)"
      and "names = GetStringSlice env v (statsdParam env ParamBackends) w3"
      and "percentiles = GetStringSlice env v (statsdParam env ParamPercentThreshold)
                           (initWorld env v pool names w3)"
      and "ferr \<noteq> None \<or> ierr \<noteq> None \<or>
           (\<exists>x\<in>set (initResults env v pool names w3). snd x \<noteq> None) \<or>
           (\<exists>x\<in>set percentiles. snd (ParseFloat env x) \<noteq> None)"
  shows "\<exists>e. (\<forall>st'. world st' = world st \<longrightarrow> fst (constructServer env v st') = Returned (Inl e)) \<and>
             fst (run env v st) = Returned (Some e) \<and>
             (\<forall>ctx. CallServerRun ctx \<in> set (trace (snd (run env v st))) \<longrightarrow>
                    CallServerRun ctx \<in> set (trace st))"
proof -
  from constructServer_fails[OF assms] obtain e where
    e: "\<And>st'. world st' = world st \<Longrightarrow>
          \<exists>w' tr. constructServer env v st' =
                    (Returned (Inl e), st'\<lparr>world := w', trace := trace st' @ tr\<rparr>) \<and>
                  (\<forall>ctx. CallServerRun ctx \<notin> set tr)"
    by blast
  define st2 where "st2 = emit (CallInfo ''Starting server'')
      (if GetString env v ParamProfile (world st) \<noteq> []
       then go (Profiler (GetString env v ParamProfile (world st))) st else st)"
  have w2: "world st2 = world st" and t2: "trace st2 = trace st @ [CallInfo ''Starting server'']"
    by (simp_all add: st2_def)
  from e[OF w2] obtain w' tr where
    c: "constructServer env v st2 = (Returned (Inl e), st2\<lparr>world := w', trace := trace st2 @ tr\<rparr>)"
    and tr: "\<forall>ctx. CallServerRun ctx \<notin> set tr" by blast
  have r: "run env v st = (Returned (Some e), st2\<lparr>world := w', trace := trace st2 @ tr\<rparr>)"
    using c by (simp add: run_def Let_def st2_def)
  have "fst (constructServer env v st') = Returned (Inl e)" if "world st' = world st" for st'
    using e[OF that] by auto
  moreover have "fst (run env v st) = Returned (Some e)" by (simp add: r)
  moreover have "\<forall>ctx. CallServerRun ctx \<in> set (trace (snd (run env v st))) \<longrightarrow>
                    CallServerRun ctx \<in> set (trace st)"
    using tr by (auto simp: r t2)
  ultimately show ?thesis by blast
qed

text \<open>
  The cloud provider \<open>k8s\<close> is configured and fails to initialise: \<^verbatim>\<open>run\<close> returns its
  error and the trace has no call of \<^verbatim>\<open>Server.Run\<close>.
\<close>

theorem startup_errors_abort_witness:
  "fst (constructServer (exEnv []) () (initState [(''cloud-provider'', [''k8s''])])) =
     Returned (Inl (Failure ''cloud provider not reachable'')) \<and>
   fst (run (exEnv []) () (initState [(''cloud-provider'', [''k8s''])])) =
     Returned (Some (Failure ''cloud provider not reachable'')) \<and>
   (\<forall>ctx. CallServerRun ctx \<notin> set (trace (snd (run (exEnv []) ()
                                       (initState [(''cloud-provider'', [''k8s''])])))))"
proof -
  let ?W = "[(''cloud-provider'', [''k8s''])]"
  have a1: "NewTransportPool (exEnv []) () (world (initState ?W)) = ((), ?W)" by code_simp
  have a2: "NewCloudHandlerFactoryFromViper (exEnv []) () (Version (exEnv [])) ?W =
              ((Some ''k8s'', None), ?W)" by code_simp
  have a3: "case Some ''k8s'' of None \<Rightarrow> Some (Failure ''cloud provider not reachable'') = None \<and> ?W = ?W
            | Some c \<Rightarrow> InitCloudProvider (exEnv []) c () ?W =
                         (Some (Failure ''cloud provider not reachable''), ?W)" by code_simp
  have f: "None \<noteq> None \<or> Some (Failure ''cloud provider not reachable'') \<noteq> None \<or>
           (\<exists>x\<in>set (initResults (exEnv []) () ()
                 (GetStringSlice (exEnv []) () (statsdParam (exEnv []) ParamBackends) ?W) ?W).
               snd x \<noteq> None) \<or>
           (\<exists>x\<in>set (GetStringSlice (exEnv []) () (statsdParam (exEnv []) ParamPercentThreshold)
                 (initWorld (exEnv []) () ()
                    (GetStringSlice (exEnv []) () (statsdParam (exEnv []) ParamBackends) ?W) ?W)).
               snd (ParseFloat (exEnv []) x) \<noteq> None)" by simp
  have c: "fst (constructServer (exEnv []) () (initState ?W)) =
             Returned (Inl (Failure ''cloud provider not reachable''))" by code_simp
  have t: "trace (initState ?W) = []" by code_simp
  from startup_errors_abort[OF a1 a2 a3 refl refl f] obtain e where
    e: "(\<forall>st'. world st' = world (initState ?W) \<longrightarrow>
            fst (constructServer (exEnv []) () st') = Returned (Inl e)) \<and>
        fst (run (exEnv []) () (initState ?W)) = Returned (Some e) \<and>
        (\<forall>ctx. CallServerRun ctx \<in> set (trace (snd (run (exEnv []) () (initState ?W)))) \<longrightarrow>
               CallServerRun ctx \<in> set (trace (initState ?W)))" ..
  from e c have "e = Failure ''cloud provider not reachable''" by auto
  with e c show ?thesis unfolding t by simp
qed

subsection \<open>Signals and the goroutine of \<^verbatim>\<open>cancelOnInterrupt\<close>\<close>

lemma trySend_length [simp]: "length (trySend c sig cs) = length cs"
  by (simp add: trySend_def)

lemma trySend_keeps:
  "k < length cs \<Longrightarrow> snd (cs ! k) \<noteq> [] \<Longrightarrow> snd (trySend c sig cs ! k) \<noteq> []"
  by (auto simp: trySend_def nth_list_update)

lemma trySend_cap: "k < length cs \<Longrightarrow> fst (trySend c sig cs ! k) = fst (cs ! k)"
  by (auto simp: trySend_def nth_list_update)

lemma trySend_fills:
  "c < length cs \<Longrightarrow> 0 < fst (cs ! c) \<Longrightarrow> snd (trySend c sig cs ! c) \<noteq> []"
  by (auto simp: trySend_def)

lemma relay_length [simp]: "length (foldl (relay sig) cs ns) = length cs"
  by (induction ns arbitrary: cs) (auto simp: relay_def)

lemma relay_cap:
  "k < length cs \<Longrightarrow> fst (foldl (relay sig) cs ns ! k) = fst (cs ! k)"
  by (induction ns arbitrary: cs) (auto simp: relay_def trySend_cap)

lemma relay_keeps:
  "k < length cs \<Longrightarrow> snd (cs ! k) \<noteq> [] \<Longrightarrow> snd (foldl (relay sig) cs ns ! k) \<noteq> []"
  by (induction ns arbitrary: cs) (auto simp: relay_def trySend_keeps)

lemma relay_fills:
  "(c, sigs) \<in> set ns \<Longrightarrow> sig \<in> set sigs \<Longrightarrow> c < length cs \<Longrightarrow> 0 < fst (cs ! c) \<Longrightarrow>
   snd (foldl (relay sig) cs ns ! c) \<noteq> []"
proof (induction ns arbitrary: cs)
  case Nil
  then show ?case by simp
next
  case (Cons n ns)
  show ?case
  proof (cases "n = (c, sigs)")
    case True
    have "snd (relay sig cs n ! c) \<noteq> []"
      using Cons.prems True by (simp add: relay_def trySend_fills)
    moreover have "c < length (relay sig cs n)"
      using Cons.prems True by (simp add: relay_def)
    ultimately show ?thesis by (simp add: relay_keeps)
  next
    case False
    with Cons.prems have "(c, sigs) \<in> set ns" by simp
    moreover have "c < length (relay sig cs n)" "0 < fst (relay sig cs n ! c)"
      using Cons.prems(3,4) by (auto simp: relay_def trySend_cap split: prod.splits)
    ultimately show ?thesis using Cons.IH[of "relay sig cs n"] Cons.prems(2) by simp
  qed
qed

lemma cancelOnInterrupt_eq:
  "cancelOnInterrupt ctx f st =
     st\<lparr>chans := chans st @ [(1, [])],
        notify := notify st @ [(length (chans st), [Interrupt, SIGTERM])],
        goroutines := goroutines st @ [InterruptWatcher ctx (length (chans st)) f]\<rparr>"
  by (simp add: cancelOnInterrupt_def makeChan_def Notify_def go_def)

lemma cancelOnInterrupt_cancels:
  assumes "sig = Interrupt \<or> sig = SIGTERM"
      and "st5 = cancelOnInterrupt ctx (CancelFunc ctx) st4"
      and "c = length (chans st4)"
  shows "InterruptWatcher ctx c (CancelFunc ctx) \<in> set (goroutines st5) \<and>
         interruptWatcher ctx c (CancelFunc ctx) (receiveSignal sig st5) \<noteq> [] \<and>
         (\<forall>st'\<in>set (interruptWatcher ctx c (CancelFunc ctx) (receiveSignal sig st5)). Done ctx st')"
proof -
  let ?cs = "foldl (relay sig) (chans st5) (notify st5)"
  have chans5: "chans st5 = chans st4 @ [(1, [])]"
    and notify5: "notify st5 = notify st4 @ [(c, [Interrupt, SIGTERM])]"
    and go5: "goroutines st5 = goroutines st4 @ [InterruptWatcher ctx c (CancelFunc ctx)]"
    by (simp_all add: assms(2,3) cancelOnInterrupt_eq)
  have c: "c < length (chans st5)" "0 < fst (chans st5 ! c)"
    by (simp_all add: chans5 assms(3))
  have "(c, [Interrupt, SIGTERM]) \<in> set (notify st5)" by (simp add: notify5)
  moreover have "sig \<in> set [Interrupt, SIGTERM]" using assms(1) by auto
  ultimately have full: "snd (?cs ! c) \<noteq> []" using c by (rule relay_fills)
  have len: "c < length ?cs" using c by simp
  show ?thesis
    using full len
    by (auto simp: go5 interruptWatcher_def receiveSignal_def Done_def Let_def)
qed

lemma backends_loop_frame:
  "constructServer_backends env v pool i names bl st = (r, st') \<Longrightarrow> sameProcess st st'"
proof (induction names arbitrary: i bl st)
  case Nil
  then show ?case by (auto simp: sameProcess_def)
next
  case (Cons name rest)
  let ?r = "InitBackend env name v pool (world st)"
  let ?st1 = "st\<lparr>world := snd ?r, trace := trace st @ [CallInitBackend name]\<rparr>"
  show ?case
  proof (cases "snd (fst ?r) = None")
    case True
    with Cons.prems have "constructServer_backends env v pool (Suc i) rest (bl[i := fst (fst ?r)]) ?st1 = (r, st')"
      by (simp add: extern_eq split_beta)
    from Cons.IH[OF this] show ?thesis by (simp add: sameProcess_def)
  next
    case False
    with Cons.prems show ?thesis by (auto simp: extern_eq split_beta sameProcess_def)
  qed
qed

lemma constructServer_frame:
  assumes "constructServer env v st = (r, st')"
  shows "sameProcess st st'"
  using assms
  by (auto simp: constructServer_def cloud_InitCloudProvider_def extern_eq Let_def sameProcess_def
           split: prod.splits option.splits outcome.splits if_splits
           dest!: backends_loop_frame)

subsection \<open>\<^verbatim>\<open>run\<close> and the end of \<^verbatim>\<open>Server.Run\<close>\<close>

text \<open>
  Claim C5. \<^verbatim>\<open>run\<close> treats a shutdown driven by cancellation as success: it returns
  nil when \<^verbatim>\<open>Server.Run\<close> returns nil or \<^verbatim>\<open>context.Canceled\<close>, and a non-nil wrapped
  error for every other error of \<^verbatim>\<open>Server.Run\<close>; the context passed to \<^verbatim>\<open>Server.Run\<close>
  is cancelled when \<^verbatim>\<open>os.Interrupt\<close> or \<^verbatim>\<open>SIGTERM\<close> is received.

  Here \<open>st3\<close> is the state in which \<^verbatim>\<open>constructServer\<close> returns the server \<open>s\<close>,
  \<open>ctx\<close> the context \<^verbatim>\<open>run\<close> makes and \<open>st5\<close> the state in which \<^verbatim>\<open>s.Run(ctx)\<close> is
  called. The context is not cancelled before the call. When one of the two signals is
  received in \<open>st5\<close>, the \<^verbatim>\<open>select\<close> of the goroutine that \<^verbatim>\<open>cancelOnInterrupt\<close> started
  can proceed and every state it can end in has \<open>ctx\<close> cancelled.
\<close>

theorem run_cancellation_is_success:
  fixes env :: "('w, 'v, 'f, 'c, 'b, 'p, 'd) env"
  assumes "constructServer env v
             (emit (CallInfo ''Starting server'')
                (if GetString env v ParamProfile (world st) \<noteq> []
                 then go (Profiler (GetString env v ParamProfile (world st))) st else st)) =
           (Returned (Inr s), st3)"
      and "ctx = contexts st3"
      and "st5 = cancelOnInterrupt ctx (CancelFunc ctx) (snd (WithCancel st3))"
      and "ServerRun env s ctx (world st5) = (err, w6)"
  shows "(err = None \<or> err = Some Canceled \<longrightarrow> fst (run env v st) = Returned None) \<and>
         (\<forall>e. err = Some e \<and> e \<noteq> Canceled \<longrightarrow>
              fst (run env v st) = Returned (Some (Errorf ''server error: '' e))) \<and>
         snd (run env v st) =
           cancel (CancelFunc ctx) (st5\<lparr>world := w6, trace := trace st5 @ [CallServerRun ctx]\<rparr>) \<and>
         ((\<forall>c\<in>set (cancelled st). c < contexts st) \<longrightarrow> \<not> Done ctx st5) \<and>
         (\<forall>sig. sig = Interrupt \<or> sig = SIGTERM \<longrightarrow>
            (\<exists>c. InterruptWatcher ctx c (CancelFunc ctx) \<in> set (goroutines st5) \<and>
                 interruptWatcher ctx c (CancelFunc ctx) (receiveSignal sig st5) \<noteq> [] \<and>
                 (\<forall>st'\<in>set (interruptWatcher ctx c (CancelFunc ctx) (receiveSignal sig st5)).
                     Done ctx st')))"
proof -
  let ?st2 = "emit (CallInfo ''Starting server'')
                (if GetString env v ParamProfile (world st) \<noteq> []
                 then go (Profiler (GetString env v ParamProfile (world st))) st else st)"
  have wc: "WithCancel st3 = ((ctx, CancelFunc ctx), snd (WithCancel st3))"
    by (simp add: WithCancel_def assms(2))
  have r: "run env v st =
      (Returned (case err of
                   Some e \<Rightarrow> if e \<noteq> Canceled then Some (Errorf ''server error: '' e) else None
                 | None \<Rightarrow> None),
       cancel (CancelFunc ctx) (st5\<lparr>world := w6, trace := trace st5 @ [CallServerRun ctx]\<rparr>))"
    unfolding run_def Let_def assms(1) prod.case outcome.case sum.case
    by (subst wc) (simp add: assms(3)[symmetric] extern_eq assms(4))
  have same: "sameProcess ?st2 st3" by (rule constructServer_frame[OF assms(1)])
  have fresh: "\<not> Done ctx st5" if "\<forall>c\<in>set (cancelled st). c < contexts st"
  proof -
    have "cancelled st5 = cancelled st" "ctx = contexts st"
      using same
      by (auto simp: assms(2,3) cancelOnInterrupt_eq WithCancel_def sameProcess_def emit_def go_def)
    with that show ?thesis by (auto simp: Done_def)
  qed
  have sig: "\<exists>c. InterruptWatcher ctx c (CancelFunc ctx) \<in> set (goroutines st5) \<and>
                 interruptWatcher ctx c (CancelFunc ctx) (receiveSignal sig st5) \<noteq> [] \<and>
                 (\<forall>st'\<in>set (interruptWatcher ctx c (CancelFunc ctx) (receiveSignal sig st5)).
                     Done ctx st')"
    if "sig = Interrupt \<or> sig = SIGTERM" for sig
    using cancelOnInterrupt_cancels[OF that assms(3) refl] by blast
  show ?thesis using r fresh sig by (auto split: option.splits)
qed

text \<open>
  A server in mode \<open>standalone\<close>, whose \<^verbatim>\<open>Run\<close> returns \<^verbatim>\<open>context.Canceled\<close>:
  \<^verbatim>\<open>run\<close> returns nil, and \<^verbatim>\<open>SIGTERM\<close> received while the server runs cancels the
  context 0 that was passed to \<^verbatim>\<open>Run\<close>. A server in mode \<open>forwarder\<close>, whose
  \<^verbatim>\<open>Run\<close> fails to listen: \<^verbatim>\<open>run\<close> returns the wrapped error.
\<close>

theorem run_cancellation_is_success_witness:
  "fst (run (exEnv []) ()
          (initState [(''backends'', [''stdout'']), (''server-mode'', [''standalone''])])) =
     Returned None \<and>
   fst (run (exEnv []) ()
          (initState [(''backends'', [''stdout'']), (''server-mode'', [''forwarder''])])) =
     Returned (Some (Failure ''server error: listen udp :8125: address already in use'')) \<and>
   (\<exists>st5. snd (run (exEnv []) ()
                 (initState [(''backends'', [''stdout'']), (''server-mode'', [''standalone''])])) =
            cancel (CancelFunc 0)
              (st5\<lparr>world := [(''backends'', [''stdout'']), (''server-mode'', [''standalone''])],
                    trace := trace st5 @ [CallServerRun 0]\<rparr>) \<and>
          \<not> Done 0 st5 \<and>
          (\<exists>c. interruptWatcher 0 c (CancelFunc 0) (receiveSignal SIGTERM st5) \<noteq> [] \<and>
               (\<forall>st'\<in>set (interruptWatcher 0 c (CancelFunc 0) (receiveSignal SIGTERM st5)).
                   Done 0 st')))"
proof -
  let ?W = "[(''backends'', [''stdout'']), (''server-mode'', [''standalone''])]"
  let ?st2 = "emit (CallInfo ''Starting server'')
                (if GetString (exEnv []) () ParamProfile (world (initState ?W)) \<noteq> []
                 then go (Profiler (GetString (exEnv []) () ParamProfile (world (initState ?W))))
                        (initState ?W)
                 else initState ?W)"
  let ?x = "constructServer (exEnv []) () ?st2"
  let ?s = "projr (returned (fst ?x))"
  let ?st5 = "cancelOnInterrupt (contexts (snd ?x)) (CancelFunc (contexts (snd ?x)))
                (snd (WithCancel (snd ?x)))"
  have "is_Returned (fst ?x) \<and> \<not> isl (returned (fst ?x))" by code_simp
  from returned_Inr[OF this] have c: "?x = (Returned (Inr ?s), snd ?x)" .
  have sr: "ServerRun (exEnv []) ?s (contexts (snd ?x)) (world ?st5) = (Some Canceled, ?W)"
    by code_simp
  have ctx: "contexts (snd ?x) = 0" by code_simp
  have wf: "\<forall>c\<in>set (cancelled (initState ?W)). c < contexts (initState ?W)"
    by (simp add: initState_def)
  note th = run_cancellation_is_success[OF c refl refl sr]
  have 1: "fst (run (exEnv []) () (initState ?W)) = Returned None"
    using th[THEN conjunct1] by simp
  have 2: "snd (run (exEnv []) () (initState ?W)) =
             cancel (CancelFunc 0) (?st5\<lparr>world := ?W, trace := trace ?st5 @ [CallServerRun 0]\<rparr>)"
    using th[THEN conjunct2, THEN conjunct2, THEN conjunct1] unfolding ctx .
  have 3: "\<not> Done 0 ?st5"
    using th[THEN conjunct2, THEN conjunct2, THEN conjunct2, THEN conjunct1] wf unfolding ctx
    by blast
  have 4: "\<exists>c. InterruptWatcher 0 c (CancelFunc 0) \<in> set (goroutines ?st5) \<and>
              interruptWatcher 0 c (CancelFunc 0) (receiveSignal SIGTERM ?st5) \<noteq> [] \<and>
              (\<forall>st'\<in>set (interruptWatcher 0 c (CancelFunc 0) (receiveSignal SIGTERM ?st5)).
                  Done 0 st')"
    using th[THEN conjunct2, THEN conjunct2, THEN conjunct2, THEN conjunct2, rule_format, of SIGTERM]
    unfolding ctx by simp
  let ?V = "[(''backends'', [''stdout'']), (''server-mode'', [''forwarder''])]"
  let ?u2 = "emit (CallInfo ''Starting server'')
                (if GetString (exEnv []) () ParamProfile (world (initState ?V)) \<noteq> []
                 then go (Profiler (GetString (exEnv []) () ParamProfile (world (initState ?V))))
                        (initState ?V)
                 else initState ?V)"
  let ?y = "constructServer (exEnv []) () ?u2"
  let ?t = "projr (returned (fst ?y))"
  let ?u5 = "cancelOnInterrupt (contexts (snd ?y)) (CancelFunc (contexts (snd ?y)))
                (snd (WithCancel (snd ?y)))"
  let ?G = "Failure ''listen udp :8125: address already in use''"
  have "is_Returned (fst ?y) \<and> \<not> isl (returned (fst ?y))" by code_simp
  from returned_Inr[OF this] have d: "?y = (Returned (Inr ?t), snd ?y)" .
  have tr: "ServerRun (exEnv []) ?t (contexts (snd ?y)) (world ?u5) = (Some ?G, ?V)"
    by code_simp
  have 5: "fst (run (exEnv []) () (initState ?V)) =
             Returned (Some (Failure ''server error: listen udp :8125: address already in use''))"
    using run_cancellation_is_success[OF d refl refl tr, THEN conjunct2, THEN conjunct1,
        rule_format, of ?G]
    by (simp add: Errorf_def)
  from 1 2 3 4 5 show ?thesis by blast
qed

subsection \<open>\<^verbatim>\<open>setupConfiguration\<close> and \<^verbatim>\<open>main\<close>\<close>

lemma setupLogger_eq:
  "\<exists>tr. setupLogger env v st = st\<lparr>trace := trace st @ tr\<rparr> \<and>
        set tr \<subseteq> {CallSetLevelDebug, CallSetFormatterJSON}"
proof -
  have "setupLogger env v st = st\<lparr>trace := trace st @
      (if GetBool env v ParamVerbose (world st) then [CallSetLevelDebug] else []) @
      (if GetBool env v ParamJSON (world st) then [CallSetFormatterJSON] else [])\<rparr>"
    by (simp add: setupLogger_def emit_def Let_def)
  then show ?thesis by (intro exI conjI) (assumption, auto)
qed

lemma bind_trace:
  "setupConfiguration_bind env v fs st = (r, st') \<Longrightarrow>
   \<exists>tr. trace st' = trace st @ tr \<and> (\<forall>c\<in>set tr. \<exists>n. c = CallBindPFlag n)"
proof (induction fs arbitrary: st)
  case Nil
  then show ?case by simp
next
  case (Cons f fs)
  let ?r = "BindPFlag env v (flagName f) f (world st)"
  let ?st1 = "st\<lparr>world := snd ?r, trace := trace st @ [CallBindPFlag (flagName f)]\<rparr>"
  show ?case
  proof (cases "fst ?r = None")
    case True
    with Cons.prems have "setupConfiguration_bind env v fs ?st1 = (r, st')"
      by (simp add: extern_eq split_beta)
    from Cons.IH[OF this] obtain tr where "trace st' = trace ?st1 @ tr"
      "\<forall>c\<in>set tr. \<exists>n. c = CallBindPFlag n" by blast
    then show ?thesis
      by (intro exI[of _ "CallBindPFlag (flagName f) # tr"]) simp
  next
    case False
    with Cons.prems have "st' = ?st1" by (auto simp: extern_eq split_beta)
    then show ?thesis by (intro exI[of _ "[CallBindPFlag (flagName f)]"]) simp
  qed
qed

lemma setupConfiguration_eq:
  fixes env :: "('w, 'v, 'f, 'c, 'b, 'p, 'd) env"
  assumes "Args env = arg0 # args"
      and "viperNew env (world st) = (v, w1)"
      and "st2 = st\<lparr>world := snd (InitViper env v [] w1),
                    trace := trace st @ [CallViperNew, CallInitViper]\<rparr>"
      and "cmd = setupConfiguration_flags env arg0"
      and "setupConfiguration_bind env v (VisitAll cmd) st2 = (None, st3)"
      and "Parse env cmd args (world st3) = ((version, perr), w4)"
      and "configPath = GetString env v ParamConfigPath w4"
      and "ReadInConfig env v (snd (SetConfigFile env v configPath w4)) = (rerr, w6)"
  shows "setupConfiguration env st =
          (case perr of
             Some e \<Rightarrow> (Returned (Inl e),
                        setupLogger env v (st3\<lparr>world := w4, trace := trace st3 @ [CallParse args]\<rparr>))
           | None \<Rightarrow>
               if configPath \<noteq> [] then
                 (case rerr of Some e \<Rightarrow> Returned (Inl e) | None \<Rightarrow> Returned (Inr (v, version)),
                  setupLogger env v
                    (st3\<lparr>world := w6,
                         trace := trace st3 @ [CallParse args, CallSetConfigFile configPath,
                                               CallReadInConfig]\<rparr>))
               else (Returned (Inr (v, version)),
                     setupLogger env v (st3\<lparr>world := w4, trace := trace st3 @ [CallParse args]\<rparr>)))"
  using assms(1,2,5,6,8)
  unfolding setupConfiguration_def extern_eq Let_def assms(3,4,7)
  by (auto simp: split_beta split: option.splits)

lemma setupConfiguration_returns:
  fixes env :: "('w, 'v, 'f, 'c, 'b, 'p, 'd) env"
  assumes "Args env = arg0 # args"
      and "viperNew env (world st) = (v, w1)"
      and "st2 = st\<lparr>world := snd (InitViper env v [] w1),
                    trace := trace st @ [CallViperNew, CallInitViper]\<rparr>"
      and "cmd = setupConfiguration_flags env arg0"
      and "setupConfiguration_bind env v (VisitAll cmd) st2 = (None, st3)"
      and "Parse env cmd args (world st3) = ((version, perr), w4)"
      and "configPath = GetString env v ParamConfigPath w4"
      and "ReadInConfig env v (snd (SetConfigFile env v configPath w4)) = (rerr, w6)"
  shows "\<exists>r st' tr. setupConfiguration env st = (Returned r, st') \<and>
           trace st' = trace st @ tr \<and>
           (\<forall>msg. CallFatalf msg \<notin> set tr) \<and>
           (CallReadInConfig \<in> set tr \<longleftrightarrow> perr = None \<and> configPath \<noteq> []) \<and>
           (\<forall>e. r = Inl e \<longleftrightarrow> perr = Some e \<or> (perr = None \<and> configPath \<noteq> [] \<and> rerr = Some e))"
proof -
  from bind_trace[OF assms(5)] obtain trb where
    trb: "trace st3 = trace st2 @ trb" "\<forall>c\<in>set trb. \<exists>n. c = CallBindPFlag n" by blast
  have t3: "trace st3 = trace st @ [CallViperNew, CallInitViper] @ trb"
    by (simp add: trb(1) assms(3))
  have nb: "CallReadInConfig \<notin> set trb" "\<And>msg. CallFatalf msg \<notin> set trb"
    using trb(2) by auto
  define trP where "trP = (if perr = None \<and> configPath \<noteq> []
      then [CallParse args, CallSetConfigFile configPath, CallReadInConfig] else [CallParse args])"
  define stP where "stP = st3\<lparr>world := (if perr = None \<and> configPath \<noteq> [] then w6 else w4),
                               trace := trace st3 @ trP\<rparr>"
  define r where "r = (case perr of Some e \<Rightarrow> Inl e
      | None \<Rightarrow> if configPath \<noteq> [] then (case rerr of Some e \<Rightarrow> Inl e | None \<Rightarrow> Inr (v, version))
                else Inr (v, version))"
  have eq: "setupConfiguration env st = (Returned r, setupLogger env v stP)"
    unfolding setupConfiguration_eq[OF assms] r_def stP_def trP_def
    by (auto split: option.splits)
  from setupLogger_eq[of env v stP] obtain trl where
    trl: "setupLogger env v stP = stP\<lparr>trace := trace stP @ trl\<rparr>"
         "set trl \<subseteq> {CallSetLevelDebug, CallSetFormatterJSON}" by blast
  have tr: "trace (setupLogger env v stP) = trace st @ ([CallViperNew, CallInitViper] @ trb @ trP @ trl)"
    by (subst trl(1)) (simp add: stP_def t3)
  have nl: "CallReadInConfig \<notin> set trl" "\<And>msg. CallFatalf msg \<notin> set trl"
    using trl(2) by auto
  have 1: "\<forall>msg. CallFatalf msg \<notin> set ([CallViperNew, CallInitViper] @ trb @ trP @ trl)"
    using nb nl by (auto simp: trP_def)
  have 2: "CallReadInConfig \<in> set ([CallViperNew, CallInitViper] @ trb @ trP @ trl) \<longleftrightarrow>
             perr = None \<and> configPath \<noteq> []"
    using nb nl by (auto simp: trP_def)
  have 3: "\<forall>e. r = Inl e \<longleftrightarrow> perr = Some e \<or> (perr = None \<and> configPath \<noteq> [] \<and> rerr = Some e)"
    by (auto simp: r_def split: option.splits)
  from eq tr 1 2 3 show ?thesis by blast
qed

text \<open>
  Claim C9. \<^verbatim>\<open>setupConfiguration\<close> reads a configuration file only when the parameter
  \<open>config-path\<close> is non-empty, and returns a non-nil error exactly when the parsing of
  the command line fails or the configuration file that was set cannot be read;
  \<^verbatim>\<open>main\<close> exits without a fatal log precisely when that error is \<^verbatim>\<open>pflag.ErrHelp\<close>
  and logs fatally for any other configuration error.

  The hypotheses say that the process has arguments and that binding the flags does not
  panic, and name what \<^verbatim>\<open>Parse\<close> and \<^verbatim>\<open>ReadInConfig\<close> return in the worlds in which
  \<^verbatim>\<open>setupConfiguration\<close> reaches them; \<open>tr\<close> is what \<^verbatim>\<open>setupConfiguration\<close> adds to
  the trace and \<open>tr'\<close> what \<^verbatim>\<open>main\<close> adds.
\<close>

theorem configuration_errors:
  fixes env :: "('w, 'v, 'f, 'c, 'b, 'p, 'd) env"
  assumes "Args env = arg0 # args"
      and "viperNew env (world st) = (v, w1)"
      and "st2 = st\<lparr>world := snd (InitViper env v [] w1),
                    trace := trace st @ [CallViperNew, CallInitViper]\<rparr>"
      and "cmd = setupConfiguration_flags env arg0"
      and "setupConfiguration_bind env v (VisitAll cmd) st2 = (None, st3)"
      and "Parse env cmd args (world st3) = ((version, perr), w4)"
      and "configPath = GetString env v ParamConfigPath w4"
      and "ReadInConfig env v (snd (SetConfigFile env v configPath w4)) = (rerr, w6)"
  shows "\<exists>r st' tr. setupConfiguration env st = (Returned r, st') \<and>
           trace st' = trace st @ tr \<and>
           (CallReadInConfig \<in> set tr \<longleftrightarrow> perr = None \<and> configPath \<noteq> []) \<and>
           (\<forall>e. r = Inl e \<longleftrightarrow> perr = Some e \<or> (perr = None \<and> configPath \<noteq> [] \<and> rerr = Some e)) \<and>
           (\<forall>st0 e. st = emit CallRandSeed st0 \<and> r = Inl e \<longrightarrow>
              (e = ErrHelp \<longrightarrow> main env st0 = (MainReturned, st')) \<and>
              (e \<noteq> ErrHelp \<longrightarrow>
                 main env st0 =
                   (OsExit 1,
                    emit (CallFatalf (''Error while parsing configuration: '' @ Error e)) st')) \<and>
              (\<exists>tr'. trace (snd (main env st0)) = trace st0 @ tr' \<and>
                     ((\<exists>msg. CallFatalf msg \<in> set tr') \<longleftrightarrow> e \<noteq> ErrHelp)))"
proof -
  from setupConfiguration_returns[OF assms] obtain r st' tr where
    eq: "setupConfiguration env st = (Returned r, st')"
    and tr: "trace st' = trace st @ tr"
    and nf: "\<forall>msg. CallFatalf msg \<notin> set tr"
    and rd: "CallReadInConfig \<in> set tr \<longleftrightarrow> perr = None \<and> configPath \<noteq> []"
    and er: "\<forall>e. r = Inl e \<longleftrightarrow> perr = Some e \<or> (perr = None \<and> configPath \<noteq> [] \<and> rerr = Some e)"
    by blast
  have m: "(e = ErrHelp \<longrightarrow> main env st0 = (MainReturned, st')) \<and>
           (e \<noteq> ErrHelp \<longrightarrow>
              main env st0 =
                (OsExit 1, emit (CallFatalf (''Error while parsing configuration: '' @ Error e)) st')) \<and>
           (\<exists>tr'. trace (snd (main env st0)) = trace st0 @ tr' \<and>
                  ((\<exists>msg. CallFatalf msg \<in> set tr') \<longleftrightarrow> e \<noteq> ErrHelp))"
    if "st = emit CallRandSeed st0 \<and> r = Inl e" for st0 e
  proof -
    from that have st: "st = emit CallRandSeed st0" and r: "r = Inl e" by simp_all
    have mn: "main env st0 =
        (if e = ErrHelp then (MainReturned, st')
         else Fatalf (''Error while parsing configuration: '' @ Error e) st')"
      using eq by (simp add: main_def Let_def st[symmetric] r)
    have t': "trace st' = trace st0 @ (CallRandSeed # tr)" by (simp add: tr st)
    show ?thesis
    proof (cases "e = ErrHelp")
      case True
      have "trace (snd (main env st0)) = trace st0 @ (CallRandSeed # tr)"
        by (simp add: mn True t')
      moreover have "\<not> (\<exists>msg. CallFatalf msg \<in> set (CallRandSeed # tr))" using nf by simp
      ultimately show ?thesis using True mn by auto
    next
      case False
      let ?f = "CallFatalf (''Error while parsing configuration: '' @ Error e)"
      have "trace (snd (main env st0)) = trace st0 @ (CallRandSeed # tr @ [?f])"
        by (simp add: mn False t' Fatalf_def)
      moreover have "\<exists>msg. CallFatalf msg \<in> set (CallRandSeed # tr @ [?f])" by auto
      ultimately show ?thesis using False mn by (auto simp: Fatalf_def)
    qed
  qed
  from eq tr rd er m show ?thesis by blast
qed


text \<open>
  The theorem at work twice: with \<open>--config-path nope.toml\<close> the file cannot be read
  and \<^verbatim>\<open>main\<close> logs fatally; with \<open>--help\<close> the parser returns \<^verbatim>\<open>pflag.ErrHelp\<close>,
  no file is read and \<^verbatim>\<open>main\<close> returns.
\<close>

theorem configuration_errors_witness:
  "fst (setupConfiguration (exEnv [''gostatsd'', ''--config-path'', ''nope.toml''])
          (emit CallRandSeed (initState []))) =
     Returned (Inl (Failure ''open: no such file or directory'')) \<and>
   main (exEnv [''gostatsd'', ''--config-path'', ''nope.toml'']) (initState []) =
     (OsExit 1,
      emit (CallFatalf ''Error while parsing configuration: open: no such file or directory'')
        (snd (setupConfiguration (exEnv [''gostatsd'', ''--config-path'', ''nope.toml''])
                (emit CallRandSeed (initState []))))) \<and>
   fst (main (exEnv [''gostatsd'', ''--help'']) (initState [])) = MainReturned \<and>
   CallReadInConfig \<notin> set (trace (snd (main (exEnv [''gostatsd'', ''--help'']) (initState []))))"
proof -
  let ?E = "exEnv [''gostatsd'', ''--config-path'', ''nope.toml'']"
  let ?st = "emit CallRandSeed (initState ([] :: exWorld))"
  let ?st2 = "?st\<lparr>world := snd (InitViper ?E () [] []),
                     trace := trace ?st @ [CallViperNew, CallInitViper]\<rparr>"
  let ?cmd = "setupConfiguration_flags ?E ''gostatsd''"
  let ?b = "setupConfiguration_bind ?E () (VisitAll ?cmd) ?st2"
  let ?W4 = "[(''config-path'', [''nope.toml''])]"
  let ?W6 = "[(''config-file'', [''nope.toml'']), (''config-path'', [''nope.toml''])]"
  let ?F = "Failure ''open: no such file or directory''"
  have a1: "Args ?E = ''gostatsd'' # [''--config-path'', ''nope.toml'']" by code_simp
  have a2: "viperNew ?E (world ?st) = ((), [])" by code_simp
  have "fst ?b = None" by code_simp
  then have a5: "?b = (None, snd ?b)" by (simp add: prod_eq_iff)
  have a6: "Parse ?E ?cmd [''--config-path'', ''nope.toml''] (world (snd ?b)) = ((False, None), ?W4)"
    by code_simp
  have p: "GetString ?E () ParamConfigPath ?W4 = ''nope.toml''" by code_simp
  have a8: "ReadInConfig ?E () (snd (SetConfigFile ?E () (GetString ?E () ParamConfigPath ?W4) ?W4)) =
              (Some ?F, ?W6)" by code_simp
  from configuration_errors[OF a1 a2 refl refl a5 a6 refl a8] obtain r st' where
    eq: "setupConfiguration ?E ?st = (Returned r, st')"
    and er: "\<forall>e. r = Inl e \<longleftrightarrow> None = Some e \<or>
               ((None :: error option) = None \<and> GetString ?E () ParamConfigPath ?W4 \<noteq> [] \<and> Some ?F = Some e)"
    and mn: "\<forall>st0 e. ?st = emit CallRandSeed st0 \<and> r = Inl e \<longrightarrow>
              (e = ErrHelp \<longrightarrow> main ?E st0 = (MainReturned, st')) \<and>
              (e \<noteq> ErrHelp \<longrightarrow>
                 main ?E st0 =
                   (OsExit 1,
                    emit (CallFatalf (''Error while parsing configuration: '' @ Error e)) st')) \<and>
              (\<exists>tr'. trace (snd (main ?E st0)) = trace st0 @ tr' \<and>
                     ((\<exists>msg. CallFatalf msg \<in> set tr') \<longleftrightarrow> e \<noteq> ErrHelp))"
    by blast
  from er have r: "r = Inl ?F" by (simp add: p)
  from mn[rule_format, of "initState []" ?F] r
  have "main ?E (initState []) =
          (OsExit 1, emit (CallFatalf (''Error while parsing configuration: '' @ Error ?F)) st')"
    by simp
  with eq r have first:
    "fst (setupConfiguration ?E ?st) = Returned (Inl ?F) \<and>
     main ?E (initState []) =
       (OsExit 1,
        emit (CallFatalf ''Error while parsing configuration: open: no such file or directory'')
          (snd (setupConfiguration ?E ?st)))"
    by simp
  let ?H = "exEnv [''gostatsd'', ''--help'']"
  let ?h2 = "?st\<lparr>world := snd (InitViper ?H () [] []),
                     trace := trace ?st @ [CallViperNew, CallInitViper]\<rparr>"
  let ?hcmd = "setupConfiguration_flags ?H ''gostatsd''"
  let ?hb = "setupConfiguration_bind ?H () (VisitAll ?hcmd) ?h2"
  have h1: "Args ?H = ''gostatsd'' # [''--help'']" by code_simp
  have h2: "viperNew ?H (world ?st) = ((), [])" by code_simp
  have "fst ?hb = None" by code_simp
  then have h5: "?hb = (None, snd ?hb)" by (simp add: prod_eq_iff)
  have h6: "Parse ?H ?hcmd [''--help''] (world (snd ?hb)) = ((False, Some ErrHelp), [])"
    by code_simp
  have h8: "ReadInConfig ?H () (snd (SetConfigFile ?H () (GetString ?H () ParamConfigPath []) [])) =
              (Some ?F, [(''config-file'', [ [] ])])" by code_simp
  from configuration_errors[OF h1 h2 refl refl h5 h6 refl h8] obtain r st' tr where
    eq: "setupConfiguration ?H ?st = (Returned r, st')"
    and tr: "trace st' = trace ?st @ tr"
    and rd: "CallReadInConfig \<in> set tr \<longleftrightarrow>
               Some ErrHelp = None \<and> GetString ?H () ParamConfigPath [] \<noteq> []"
    and er: "\<forall>e. r = Inl e \<longleftrightarrow> Some ErrHelp = Some e \<or>
               (Some ErrHelp = None \<and> GetString ?H () ParamConfigPath [] \<noteq> [] \<and> Some ?F = Some e)"
    and mn: "\<forall>st0 e. ?st = emit CallRandSeed st0 \<and> r = Inl e \<longrightarrow>
              (e = ErrHelp \<longrightarrow> main ?H st0 = (MainReturned, st')) \<and>
              (e \<noteq> ErrHelp \<longrightarrow>
                 main ?H st0 =
                   (OsExit 1,
                    emit (CallFatalf (''Error while parsing configuration: '' @ Error e)) st')) \<and>
              (\<exists>tr'. trace (snd (main ?H st0)) = trace st0 @ tr' \<and>
                     ((\<exists>msg. CallFatalf msg \<in> set tr') \<longleftrightarrow> e \<noteq> ErrHelp))"
    by blast
  from er have r: "r = Inl ErrHelp" by simp
  from mn[rule_format, of "initState []" ErrHelp] r
  have m: "main ?H (initState []) = (MainReturned, st')" by simp
  from rd have "CallReadInConfig \<notin> set tr" by simp
  then have "CallReadInConfig \<notin> set (trace st')"
    by (simp add: tr emit_def initState_def)
  with m have second: "fst (main ?H (initState [])) = MainReturned \<and>
      CallReadInConfig \<notin> set (trace (snd (main ?H (initState []))))" by simp
  from first second show ?thesis by simp
qed

subsection \<open>Identities, shards and counters of the pipeline\<close>

lemma canonicalTags_sorted_distinct:
  "sorted (canonicalTags tags) \<and> distinct (canonicalTags tags) \<and>
   set (canonicalTags tags) = set tags"
  by (simp add: canonicalTags_def)

lemma canonicalTags_eq_iff: "canonicalTags xs = canonicalTags ys \<longleftrightarrow> set xs = set ys"
proof
  assume "canonicalTags xs = canonicalTags ys"
  then have "set (canonicalTags xs) = set (canonicalTags ys)" by simp
  then show "set xs = set ys" by (simp add: canonicalTags_sorted_distinct)
next
  assume "set xs = set ys"
  then have "set (canonicalTags xs) = set (canonicalTags ys)"
    by (simp add: canonicalTags_sorted_distinct)
  then show "canonicalTags xs = canonicalTags ys"
    using canonicalTags_sorted_distinct[of xs] canonicalTags_sorted_distinct[of ys]
    by (intro sorted_distinct_set_unique) auto
qed

text \<open>
  Claim C2. Two metrics whose name, metric kind and tag-set are equal, the tag-set
  compared as an unordered set whatever the insertion order, map to the same
  \<open>MetricIdentity\<close>, and the shard assigned to that identity is the same: the shard is
  a function of the identity. Conversely two metrics with the same identity agree on
  name, kind and tag-set.
\<close>

theorem same_identity_same_shard:
  "(metricName m1 = metricName m2 \<and> metricKind m1 = metricKind m2 \<and>
    set (metricTags m1) = set (metricTags m2) \<longleftrightarrow> metricIdentity m1 = metricIdentity m2) \<and>
   (metricIdentity m1 = metricIdentity m2 \<longrightarrow>
      shardOf hash workers (metricIdentity m1) = shardOf hash workers (metricIdentity m2))"
proof (intro conjI impI)
  show "metricName m1 = metricName m2 \<and> metricKind m1 = metricKind m2 \<and>
        set (metricTags m1) = set (metricTags m2) \<longleftrightarrow> metricIdentity m1 = metricIdentity m2"
    by (auto simp: metricIdentity_def canonicalTags_eq_iff)
next
  assume "metricIdentity m1 = metricIdentity m2"
  then show "shardOf hash workers (metricIdentity m1) = shardOf hash workers (metricIdentity m2)"
    by simp
qed

text \<open>Two data points of one counter whose tags arrive in different orders, one repeated.\<close>

theorem same_identity_same_shard_witness:
  "metricIdentity
     \<lparr>metricName = ''foo.bar'', metricKind = Counter, metricValue = Number 1,
      metricRate = None, metricTags = [''env:prod'', ''az:b''], metricHostname = None\<rparr> =
   metricIdentity
     \<lparr>metricName = ''foo.bar'', metricKind = Counter, metricValue = Number 5,
      metricRate = Some (1 / 2), metricTags = [''az:b'', ''env:prod'', ''az:b''],
      metricHostname = Some ''10.0.0.1''\<rparr> \<and>
   shardOf exHash 4 (metricIdentity
     \<lparr>metricName = ''foo.bar'', metricKind = Counter, metricValue = Number 1,
      metricRate = None, metricTags = [''env:prod'', ''az:b''], metricHostname = None\<rparr>) =
   shardOf exHash 4 (metricIdentity
     \<lparr>metricName = ''foo.bar'', metricKind = Counter, metricValue = Number 5,
      metricRate = Some (1 / 2), metricTags = [''az:b'', ''env:prod'', ''az:b''],
      metricHostname = Some ''10.0.0.1''\<rparr>)"
proof -
  let ?m1 = "\<lparr>metricName = ''foo.bar'', metricKind = Counter, metricValue = Number 1,
      metricRate = None, metricTags = [''env:prod'', ''az:b''], metricHostname = None\<rparr>"
  let ?m2 = "\<lparr>metricName = ''foo.bar'', metricKind = Counter, metricValue = Number 5,
      metricRate = Some (1 / 2), metricTags = [''az:b'', ''env:prod'', ''az:b''],
      metricHostname = Some ''10.0.0.1''\<rparr>"
  have h: "metricName ?m1 = metricName ?m2 \<and> metricKind ?m1 = metricKind ?m2 \<and>
           set (metricTags ?m1) = set (metricTags ?m2)" by auto
  from same_identity_same_shard[of ?m1 ?m2 exHash 4] h
  show ?thesis by blast
qed

subsection \<open>Counters of the pipeline\<close>





declare shardStep.simps(1) [simp del]




lemma life_length [simp]: "length (life s es) = length es"
  by (induction es arbitrary: s) simp_all

lemma life_take: "take n (life s es) = life s (take n es)"
proof (induction es arbitrary: s n)
  case Nil
  then show ?case by simp
next
  case (Cons e es)
  then show ?case by (cases n) simp_all
qed







subsection \<open>The bad-line rate limit\<close>





lemma round64_nonneg: "0 \<le> q \<Longrightarrow> 0 \<le> round64 q"
proof -
  assume q: "0 \<le> q"
  let ?e = "max (floorlog2 q) (- 1022) - 52"
  have "0 \<le> q / 2 powi ?e" using q by simp
  then have "0 \<le> roundHalfEven (q / 2 powi ?e)"
    by (auto simp: roundHalfEven_def Let_def)
  then show ?thesis by (simp add: round64_def Let_def)
qed






subsection \<open>The server value that \<^verbatim>\<open>constructServer\<close> returns\<close>





end
